theory Spec2Isabelle
  imports Complex_Main
begin

section \<open>Provider availability: slot generation, conflict detection, slot store\<close>

text \<open>
  A shallow embedding of the availability subsystem of the backend:
  \<^item> \<^verbatim>\<open>provider-availability/utils/timezone.util.ts\<close> (class \<^verbatim>\<open>TimezoneUtil\<close>),
  \<^item> \<^verbatim>\<open>provider-availability/utils/slot-generator.util.ts\<close> (class \<^verbatim>\<open>SlotGeneratorUtil\<close>),
  \<^item> \<^verbatim>\<open>provider-availability/availability.service.ts\<close> (class \<^verbatim>\<open>AvailabilityService\<close>,
    the variant with \<^verbatim>\<open>createAvailability\<close>).

  Conventions.
  \<^item> A JavaScript \<^verbatim>\<open>Date\<close> is its time value: milliseconds since the epoch, an \<open>int\<close>.
    Where the code can build an \<^verbatim>\<open>Invalid Date\<close> the type is \<open>int option\<close> and
    \<open>None\<close> is the invalid date.
  \<^item> Durations in minutes are \<open>int\<close> (whole minutes); prices are \<open>rat\<close>.
  \<^item> A thrown exception is the \<open>Inl\<close> of a sum; a loop that need not return is a
    \<^theory_text>\<open>partial_function\<close> in the option monad, \<open>None\<close> meaning that it does not return.
  \<^item> Row identifiers (uuid strings in the database) are natural numbers.
\<close>

subsection \<open>The date library, as far as the code uses it\<close>

text \<open>
  The code parses and prints times of day with the date library's \<^verbatim>\<open>fromFormat(s, 'HH:mm')\<close>
  and \<^verbatim>\<open>toFormat('HH:mm')\<close>. The library is not part of the repository; what follows is the
  behaviour of these two calls. \<^verbatim>\<open>HH\<close> and \<^verbatim>\<open>mm\<close> are exactly two decimal digits each, the hour
  is at most 23 and the minute at most 59; the one further string accepted is \<^verbatim>\<open>24:00\<close>, which
  denotes midnight at the end of the day. A parsed time is a number of minutes after today's
  midnight. Printing shows the time of day only, so a time on the next (or previous) day prints
  like the same time today.

  The zone database and the library's settings are parameters of the model, collected in
  the record \<open>runtime\<close>: \<open>zoneOffset\<close> gives the offset from UTC, in minutes, of the zones the
  runtime knows (zones are modelled with a constant offset), \<open>throwOnInvalid\<close> is the
  library setting of that name (off unless the program switches it on), and \<open>systemOffset\<close>
  is the offset of the server's own zone.
\<close>

datatype error =
    InvalidTimeFormat
  | TypeError
  | NotFoundException string
  | BadRequestException string
  | ConflictException string
  | OverlapConflictException nat
  | PersistenceError

record runtime =
  zoneOffset :: "string \<Rightarrow> int option"
  throwOnInvalid :: bool
  systemOffset :: int

definition digitVal :: "char \<Rightarrow> nat option" where
  "digitVal c = (let n = (of_char c :: nat) in if 48 \<le> n \<and> n \<le> 57 then Some (n - 48) else None)"

definition digitChar :: "nat \<Rightarrow> char" where
  "digitChar n = ''0123456789'' ! n"

definition parseHHmm :: "string \<Rightarrow> nat option" where
  "parseHHmm s =
     (case s of
        [h1, h2, sep, m1, m2] \<Rightarrow>
          (case (digitVal h1, digitVal h2, digitVal m1, digitVal m2) of
             (Some a, Some b, Some x, Some y) \<Rightarrow>
               (let h = 10 * a + b; m = 10 * x + y
                in if sep = CHR '':'' \<and> m \<le> 59 \<and> (h \<le> 23 \<or> (h = 24 \<and> m = 0))
                   then Some (60 * h + m) else None)
           | _ \<Rightarrow> None)
      | _ \<Rightarrow> None)"

definition formatHHmm :: "int \<Rightarrow> string" where
  "formatHHmm t =
     (let w = nat (t mod 1440); h = w div 60; m = w mod 60
      in [digitChar (h div 10), digitChar (h mod 10), CHR '':'',
          digitChar (m div 10), digitChar (m mod 10)])"

definition msPerMinute :: int where
  "msPerMinute = 60000"

definition msPerDay :: int where
  "msPerDay = 86400000"

subsection \<open>TimezoneUtil\<close>

text \<open>
  \<^verbatim>\<open>toUTC(date, time, timezone)\<close>: the UTC calendar day of \<open>date\<close> (the part of
  \<^verbatim>\<open>date.toISOString()\<close> before the \<^verbatim>\<open>T\<close>) joined with \<open>time\<close>, read in the zone. An
  unknown zone or an unreadable time gives an invalid date.
\<close>

definition toUTC :: "runtime \<Rightarrow> int \<Rightarrow> string \<Rightarrow> string \<Rightarrow> int option" where
  "toUTC R d time tz =
     (case (parseHHmm time, zoneOffset R tz) of
        (Some t, Some off) \<Rightarrow> Some ((d div msPerDay) * msPerDay + (int t - off) * msPerMinute)
      | _ \<Rightarrow> None)"

text \<open>
  \<^verbatim>\<open>isValidTimezone\<close> returns false exactly when \<^verbatim>\<open>setZone\<close> throws, and \<^verbatim>\<open>setZone\<close> throws
  only for a zone the runtime does not know and only under \<open>throwOnInvalid\<close>.
\<close>

definition isValidTimezone :: "runtime \<Rightarrow> string \<Rightarrow> bool" where
  "isValidTimezone R tz =
     (case zoneOffset R tz of Some off \<Rightarrow> True | None \<Rightarrow> \<not> throwOnInvalid R)"

definition formatTimeForDisplay :: "runtime \<Rightarrow> int \<Rightarrow> string \<Rightarrow> string" where
  "formatTimeForDisplay R d tz =
     (case zoneOffset R tz of
        Some off \<Rightarrow> formatHHmm (d div msPerMinute + off)
      | None \<Rightarrow> ''Invalid DateTime'')"

definition calculateDuration :: "string \<Rightarrow> string \<Rightarrow> error + int" where
  "calculateDuration startT endT =
     (case (parseHHmm startT, parseHHmm endT) of
        (Some s, Some e) \<Rightarrow> Inr (int e - int s)
      | _ \<Rightarrow> Inl InvalidTimeFormat)"

definition addMinutes :: "string \<Rightarrow> int \<Rightarrow> error + string" where
  "addMinutes time minutes =
     (case parseHHmm time of
        None \<Rightarrow> Inl InvalidTimeFormat
      | Some t \<Rightarrow> Inr (formatHHmm (int t + minutes)))"

subsection \<open>SlotGeneratorUtil\<close>

record SlotGenerationConfig =
  startTime :: string
  endTime :: string
  slotDuration :: int
  breakDuration :: int
  timezone :: string
  date :: int

record GeneratedSlot =
  gs_startTime :: string
  gs_endTime :: string
  gs_slotStartTime :: "int option"
  gs_slotEndTime :: "int option"

definition isTimeBefore :: "string \<Rightarrow> string \<Rightarrow> error + bool" where
  "isTimeBefore time1 time2 =
     (case (parseHHmm time1, parseHHmm time2) of
        (Some t1, Some t2) \<Rightarrow> Inr (t1 < t2)
      | _ \<Rightarrow> Inl InvalidTimeFormat)"

definition isTimeEqual :: "string \<Rightarrow> string \<Rightarrow> error + bool" where
  "isTimeEqual time1 time2 =
     (case (parseHHmm time1, parseHHmm time2) of
        (Some t1, Some t2) \<Rightarrow> Inr (t1 = t2)
      | _ \<Rightarrow> Inl InvalidTimeFormat)"

definition isValidTimeFormat :: "string \<Rightarrow> bool" where
  "isValidTimeFormat time = (parseHHmm time \<noteq> None)"

text \<open>
  The body of the \<^verbatim>\<open>while\<close> loop of \<^verbatim>\<open>generateSlotsForDay\<close>: from the current time and the
  slots pushed so far to the next current time and the slots after this round. The
  condition of the \<^verbatim>\<open>if\<close> is \<^verbatim>\<open>isTimeBefore(..) || isTimeEqual(..)\<close>, evaluated left to right.
\<close>

definition slotFits :: "string \<Rightarrow> string \<Rightarrow> error + bool" where
  "slotFits slotEnd endT =
     (case isTimeBefore slotEnd endT of
        Inl e \<Rightarrow> Inl e
      | Inr before \<Rightarrow> if before then Inr True else isTimeEqual slotEnd endT)"

definition slotRound ::
  "runtime \<Rightarrow> SlotGenerationConfig \<Rightarrow> string \<Rightarrow> GeneratedSlot list \<Rightarrow> error + (string \<times> GeneratedSlot list)" where
  "slotRound R config currentTime slots =
     (case addMinutes currentTime (slotDuration config) of
        Inl e \<Rightarrow> Inl e
      | Inr slotEnd \<Rightarrow>
          (case slotFits slotEnd (endTime config) of
             Inl e \<Rightarrow> Inl e
           | Inr fits \<Rightarrow>
               (let slots' =
                  (if fits
                   then slots @
                     [\<lparr>gs_startTime = currentTime, gs_endTime = slotEnd,
                       gs_slotStartTime = toUTC R (date config) currentTime (timezone config),
                       gs_slotEndTime = toUTC R (date config) slotEnd (timezone config)\<rparr>]
                   else slots)
                in (case addMinutes slotEnd (breakDuration config) of
                      Inl e \<Rightarrow> Inl e
                    | Inr next \<Rightarrow> Inr (next, slots')))))"

partial_function (option) generateSlotsLoop ::
  "runtime \<Rightarrow> SlotGenerationConfig \<Rightarrow> string \<Rightarrow> GeneratedSlot list \<Rightarrow> (error + GeneratedSlot list) option" where
  [code]: "generateSlotsLoop R config currentTime slots =
     (case isTimeBefore currentTime (endTime config) of
        Inl e \<Rightarrow> Some (Inl e)
      | Inr before \<Rightarrow>
          if before
          then (case slotRound R config currentTime slots of
                  Inl e \<Rightarrow> Some (Inl e)
                | Inr (next, slots') \<Rightarrow> generateSlotsLoop R config next slots')
          else Some (Inr slots))"

definition generateSlotsForDay ::
  "runtime \<Rightarrow> SlotGenerationConfig \<Rightarrow> (error + GeneratedSlot list) option" where
  "generateSlotsForDay R config = generateSlotsLoop R config (startTime config) []"

text \<open>
  \<^verbatim>\<open>validateSlotGeneration\<close>: the checks in the order of the source. \<^verbatim>\<open>isTimeBefore\<close> and
  \<^verbatim>\<open>calculateDuration\<close> throw on a time they cannot read, and the exception leaves the
  function.
\<close>

definition validateSlotGeneration :: "runtime \<Rightarrow> SlotGenerationConfig \<Rightarrow> error + string list" where
  "validateSlotGeneration R config =
     (let errors1 = (if \<not> isValidTimeFormat (startTime config)
                     then [''Invalid start time format. Use HH:mm format.''] else []);
          errors2 = errors1 @ (if \<not> isValidTimeFormat (endTime config)
                     then [''Invalid end time format. Use HH:mm format.''] else [])
      in case isTimeBefore (endTime config) (startTime config) of
           Inl e \<Rightarrow> Inl e
         | Inr endFirst \<Rightarrow>
             (let errors3 = errors2 @ (if endFirst
                              then [''End time must be after start time.''] else []);
                  errors4 = errors3 @ (if slotDuration config \<le> 0
                              then [''Slot duration must be greater than 0.''] else []);
                  errors5 = errors4 @ (if breakDuration config < 0
                              then [''Break duration cannot be negative.''] else []);
                  errors6 = errors5 @ (if \<not> isValidTimezone R (timezone config)
                              then [''Invalid timezone.''] else [])
              in case calculateDuration (startTime config) (endTime config) of
                   Inl e \<Rightarrow> Inl e
                 | Inr totalDuration \<Rightarrow>
                     Inr (errors6 @ (if slotDuration config > totalDuration
                        then [''Slot duration cannot be greater than total availability duration.'']
                        else []))))"

text \<open>
  \<^verbatim>\<open>calculateTotalSlots\<close>: \<^verbatim>\<open>Math.floor(totalMinutes / slotWithBreak)\<close>. The division is
  JavaScript's: by zero it gives an infinity or \<^verbatim>\<open>NaN\<close>, which is no integer, here \<open>None\<close>.
\<close>

definition calculateTotalSlots :: "SlotGenerationConfig \<Rightarrow> error + int option" where
  "calculateTotalSlots config =
     (case calculateDuration (startTime config) (endTime config) of
        Inl e \<Rightarrow> Inl e
      | Inr totalMinutes \<Rightarrow>
          (let slotWithBreak = slotDuration config + breakDuration config
           in Inr (if slotWithBreak = 0 then None else Some (totalMinutes div slotWithBreak))))"

text \<open>
  \<^verbatim>\<open>checkForOverlappingSlots\<close>: the two nested \<^verbatim>\<open>for\<close> loops. The inner loop stops at the
  first existing slot that overlaps (\<^verbatim>\<open>break\<close>) and says whether it pushed the new slot.
  Dates are compared by their time values; a comparison with an invalid date is false.
\<close>

definition dateLess :: "int option \<Rightarrow> int option \<Rightarrow> bool" where
  "dateLess a b = (case (a, b) of (Some x, Some y) \<Rightarrow> x < y | _ \<Rightarrow> False)"

definition slotsOverlap :: "GeneratedSlot \<Rightarrow> GeneratedSlot \<Rightarrow> bool" where
  "slotsOverlap slot1 slot2 =
     (dateLess (gs_slotStartTime slot1) (gs_slotEndTime slot2) \<and>
      dateLess (gs_slotStartTime slot2) (gs_slotEndTime slot1))"

fun overlapsSome :: "GeneratedSlot \<Rightarrow> GeneratedSlot list \<Rightarrow> bool" where
  "overlapsSome newSlot [] = False"
| "overlapsSome newSlot (existingSlot # rest) =
     (if slotsOverlap newSlot existingSlot then True else overlapsSome newSlot rest)"

fun overlapLoop :: "GeneratedSlot list \<Rightarrow> GeneratedSlot list \<Rightarrow> GeneratedSlot list \<Rightarrow> GeneratedSlot list" where
  "overlapLoop [] existingSlots overlapping = overlapping"
| "overlapLoop (newSlot # rest) existingSlots overlapping =
     overlapLoop rest existingSlots
       (if overlapsSome newSlot existingSlots then overlapping @ [newSlot] else overlapping)"

definition checkForOverlappingSlots :: "GeneratedSlot list \<Rightarrow> GeneratedSlot list \<Rightarrow> GeneratedSlot list" where
  "checkForOverlappingSlots newSlots existingSlots = overlapLoop newSlots existingSlots []"

subsection \<open>Recurrence\<close>

text \<open>
  Calendar arithmetic of the date library, for \<^verbatim>\<open>plus({ months: n })\<close>: the day number of a
  civil date (days since 1970-01-01, proleptic Gregorian calendar) and back, and the length
  of a month. Adding months keeps the time of day and the day of the month, the latter cut
  down to the length of the target month; the calendar fields are those of the server's
  zone. Adding days or weeks in a zone of constant offset adds that many times 24 hours.
\<close>

definition daysFromCivil :: "int \<Rightarrow> int \<Rightarrow> int \<Rightarrow> int" where
  "daysFromCivil y m d =
     (let y' = (if m \<le> 2 then y - 1 else y);
          era = y' div 400;
          yoe = y' - era * 400;
          doy = (153 * (if m > 2 then m - 3 else m + 9) + 2) div 5 + d - 1;
          doe = yoe * 365 + yoe div 4 - yoe div 100 + doy
      in era * 146097 + doe - 719468)"

definition civilFromDays :: "int \<Rightarrow> int \<times> int \<times> int" where
  "civilFromDays z =
     (let z' = z + 719468;
          era = z' div 146097;
          doe = z' - era * 146097;
          yoe = (doe - doe div 1460 + doe div 36524 - doe div 146096) div 365;
          doy = doe - (365 * yoe + yoe div 4 - yoe div 100);
          mp = (5 * doy + 2) div 153;
          d = doy - (153 * mp + 2) div 5 + 1;
          m = (if mp < 10 then mp + 3 else mp - 9);
          y = yoe + era * 400
      in (if m \<le> 2 then y + 1 else y, m, d))"

definition isLeapYear :: "int \<Rightarrow> bool" where
  "isLeapYear y = (y mod 4 = 0 \<and> (if y mod 100 = 0 then y mod 400 = 0 else True))"

definition daysInMonth :: "int \<Rightarrow> int \<Rightarrow> int" where
  "daysInMonth y m =
     (if m = 2 then (if isLeapYear y then 29 else 28)
      else if m = 4 \<or> m = 6 \<or> m = 9 \<or> m = 11 then 30 else 31)"

definition plusMonths :: "runtime \<Rightarrow> int \<Rightarrow> int \<Rightarrow> int" where
  "plusMonths R n t =
     (let localT = t + systemOffset R * msPerMinute;
          (y, m, d) = civilFromDays (localT div msPerDay);
          y' = y + (m - 1 + n) div 12;
          m' = (m - 1 + n) mod 12 + 1;
          d' = min d (daysInMonth y' m')
      in daysFromCivil y' m' d' * msPerDay + localT mod msPerDay - systemOffset R * msPerMinute)"

definition plusDays :: "int \<Rightarrow> int \<Rightarrow> int" where
  "plusDays n t = t + n * msPerDay"

datatype RecurrencePattern = daily | weekly | monthly

fun getNextDate :: "runtime \<Rightarrow> int \<Rightarrow> RecurrencePattern \<Rightarrow> int" where
  "getNextDate R currentDate daily = plusDays 1 currentDate"
| "getNextDate R currentDate weekly = plusDays 7 currentDate"
| "getNextDate R currentDate monthly = plusMonths R 1 currentDate"

partial_function (option) recurringLoop ::
  "runtime \<Rightarrow> SlotGenerationConfig \<Rightarrow> RecurrencePattern \<Rightarrow> int \<Rightarrow> int \<Rightarrow> GeneratedSlot list
     \<Rightarrow> (error + GeneratedSlot list) option" where
  [code]: "recurringLoop R config recurrencePattern endDate currentDate slots =
     (if currentDate \<le> endDate
      then (case generateSlotsForDay R (config\<lparr>date := currentDate\<rparr>) of
              None \<Rightarrow> None
            | Some (Inl e) \<Rightarrow> Some (Inl e)
            | Some (Inr daySlots) \<Rightarrow>
                recurringLoop R config recurrencePattern endDate
                  (getNextDate R currentDate recurrencePattern) (slots @ daySlots))
      else Some (Inr slots))"

definition generateRecurringSlots ::
  "runtime \<Rightarrow> SlotGenerationConfig \<Rightarrow> RecurrencePattern \<Rightarrow> int \<Rightarrow> (error + GeneratedSlot list) option" where
  "generateRecurringSlots R config recurrencePattern endDate =
     recurringLoop R config recurrencePattern endDate (date config) []"

subsection \<open>The database\<close>

text \<open>
  The two tables of the availability module and the provider table (of which only the
  identifiers matter here). Timestamps \<^verbatim>\<open>createdAt\<close> and \<^verbatim>\<open>updatedAt\<close> are left out. New
  rows take their identifiers from the counter \<open>nextId\<close>.
\<close>

datatype SlotStatus = available | booked | cancelled | blocked

datatype AvailabilityStatus = Available | Booked | Cancelled | Blocked | Maintenance

record Location =
  loc_type :: string
  loc_address :: string
  loc_room_number :: "string option"
  loc_building :: "string option"
  loc_floor :: "string option"
  loc_instructions :: "string option"

record Pricing =
  base_fee :: rat
  insurance_accepted :: "bool option"
  currency :: string

record ProviderAvailability =
  a_id :: nat
  a_providerId :: nat
  a_date :: int
  a_startTime :: string
  a_endTime :: string
  a_timezone :: string
  a_isRecurring :: bool
  a_recurrencePattern :: "RecurrencePattern option"
  a_recurrenceEndDate :: "int option"
  a_slotDuration :: int
  a_breakDuration :: int
  a_status :: AvailabilityStatus
  a_maxAppointmentsPerSlot :: int
  a_currentAppointments :: int
  a_appointmentType :: string
  a_location :: Location
  a_pricing :: "Pricing option"
  a_specialRequirements :: "string list"
  a_notes :: "string option"

record AppointmentSlot =
  s_id :: nat
  s_availabilityId :: nat
  s_providerId :: nat
  s_slotStartTime :: int
  s_slotEndTime :: int
  s_status :: SlotStatus
  s_patientId :: "nat option"
  s_appointmentType :: string
  s_bookingReference :: "string option"

record database =
  providers :: "nat list"
  availabilities :: "ProviderAvailability list"
  appointmentSlots :: "AppointmentSlot list"
  nextId :: nat

subsection \<open>AvailabilityService\<close>

record CreateAvailabilityDto =
  dto_date :: int
  dto_start_time :: string
  dto_end_time :: string
  dto_timezone :: string
  dto_slot_duration :: int
  dto_break_duration :: int
  dto_is_recurring :: bool
  dto_recurrence_pattern :: "RecurrencePattern option"
  dto_recurrence_end_date :: "int option"
  dto_appointment_type :: string
  dto_location :: Location
  dto_pricing :: "Pricing option"
  dto_special_requirements :: "string list option"
  dto_notes :: "string option"
  dto_max_appointments_per_slot :: "int option"

record CreateResult =
  availability_id :: nat
  slots_created :: nat
  date_range_start :: int
  date_range_end :: int

definition configOf :: "CreateAvailabilityDto \<Rightarrow> SlotGenerationConfig" where
  "configOf dto =
     \<lparr>startTime = dto_start_time dto, endTime = dto_end_time dto,
      slotDuration = dto_slot_duration dto, breakDuration = dto_break_duration dto,
      timezone = dto_timezone dto, date = dto_date dto\<rparr>"

fun joinErrors :: "string list \<Rightarrow> string" where
  "joinErrors [] = []"
| "joinErrors [e] = e"
| "joinErrors (e # es) = e @ '', '' @ joinErrors es"

text \<open>
  \<^verbatim>\<open>checkAvailabilityConflicts\<close>: the existing slots of the provider that start on the day
  \<open>[date, date + 1 day)\<close>, compared with the slots \<^verbatim>\<open>generateSlotsForDay\<close> gives for the
  configuration.
\<close>

definition existingSlotsOfDay :: "database \<Rightarrow> nat \<Rightarrow> int \<Rightarrow> AppointmentSlot list" where
  "existingSlotsOfDay db providerId d =
     filter (\<lambda>slot. s_providerId slot = providerId \<and>
                    d \<le> s_slotStartTime slot \<and> s_slotStartTime slot < plusDays 1 d)
       (appointmentSlots db)"

definition toGeneratedSlot :: "runtime \<Rightarrow> string \<Rightarrow> AppointmentSlot \<Rightarrow> GeneratedSlot" where
  "toGeneratedSlot R tz slot =
     \<lparr>gs_startTime = formatTimeForDisplay R (s_slotStartTime slot) tz,
      gs_endTime = formatTimeForDisplay R (s_slotEndTime slot) tz,
      gs_slotStartTime = Some (s_slotStartTime slot),
      gs_slotEndTime = Some (s_slotEndTime slot)\<rparr>"

definition checkAvailabilityConflicts ::
  "runtime \<Rightarrow> database \<Rightarrow> nat \<Rightarrow> SlotGenerationConfig \<Rightarrow> (error + unit) option" where
  "checkAvailabilityConflicts R db providerId config =
     (let existingSlots = existingSlotsOfDay db providerId (date config)
      in if length existingSlots > 0
         then (case generateSlotsForDay R config of
                 None \<Rightarrow> None
               | Some (Inl e) \<Rightarrow> Some (Inl e)
               | Some (Inr newSlots) \<Rightarrow>
                   (let existingGeneratedSlots = map (toGeneratedSlot R (timezone config)) existingSlots;
                        overlapping = checkForOverlappingSlots newSlots existingGeneratedSlots
                    in if length overlapping > 0
                       then Some (Inl (OverlapConflictException (length overlapping)))
                       else Some (Inr ())))
         else Some (Inr ()))"

text \<open>
  The slots a request asks for (the \<^verbatim>\<open>if\<close> after the conflict check in
  \<^verbatim>\<open>createAvailability\<close>); \<open>now\<close> is the time of the call.
\<close>

definition recurrenceEndDate :: "runtime \<Rightarrow> int \<Rightarrow> CreateAvailabilityDto \<Rightarrow> int" where
  "recurrenceEndDate R now dto =
     (case dto_recurrence_end_date dto of
        Some d \<Rightarrow> d
      | None \<Rightarrow> plusMonths R 3 now)"

definition requestedSlots ::
  "runtime \<Rightarrow> int \<Rightarrow> CreateAvailabilityDto \<Rightarrow> (error + GeneratedSlot list) option" where
  "requestedSlots R now dto =
     (case (dto_is_recurring dto, dto_recurrence_pattern dto) of
        (True, Some pattern) \<Rightarrow>
          generateRecurringSlots R (configOf dto) pattern (recurrenceEndDate R now dto)
      | _ \<Rightarrow> generateSlotsForDay R (configOf dto))"

text \<open>
  The transaction: one availability row and one slot row for each generated slot. A slot
  whose instants are invalid dates cannot be written; the transaction then fails as a whole.
\<close>

definition newAvailability :: "nat \<Rightarrow> nat \<Rightarrow> CreateAvailabilityDto \<Rightarrow> ProviderAvailability" where
  "newAvailability newId providerId dto =
     \<lparr>a_id = newId, a_providerId = providerId, a_date = dto_date dto,
      a_startTime = dto_start_time dto, a_endTime = dto_end_time dto,
      a_timezone = dto_timezone dto, a_isRecurring = dto_is_recurring dto,
      a_recurrencePattern = dto_recurrence_pattern dto,
      a_recurrenceEndDate = dto_recurrence_end_date dto,
      a_slotDuration = dto_slot_duration dto, a_breakDuration = dto_break_duration dto,
      a_status = Available,
      a_maxAppointmentsPerSlot =
        (case dto_max_appointments_per_slot dto of
           None \<Rightarrow> 1 | Some n \<Rightarrow> if n = 0 then 1 else n),
      a_currentAppointments = 0,
      a_appointmentType = dto_appointment_type dto,
      a_location = dto_location dto, a_pricing = dto_pricing dto,
      a_specialRequirements =
        (case dto_special_requirements dto of None \<Rightarrow> [] | Some rs \<Rightarrow> rs),
      a_notes = dto_notes dto\<rparr>"

fun newSlotRows :: "nat \<Rightarrow> nat \<Rightarrow> nat \<Rightarrow> string \<Rightarrow> GeneratedSlot list \<Rightarrow> AppointmentSlot list option" where
  "newSlotRows newId availabilityId providerId appointmentType [] = Some []"
| "newSlotRows newId availabilityId providerId appointmentType (slot # rest) =
     (case (gs_slotStartTime slot, gs_slotEndTime slot,
            newSlotRows (Suc newId) availabilityId providerId appointmentType rest) of
        (Some st, Some en, Some rows) \<Rightarrow>
          Some (\<lparr>s_id = newId, s_availabilityId = availabilityId, s_providerId = providerId,
                 s_slotStartTime = st, s_slotEndTime = en, s_status = available,
                 s_patientId = None, s_appointmentType = appointmentType,
                 s_bookingReference = None\<rparr> # rows)
      | _ \<Rightarrow> None)"

definition createAvailability ::
  "runtime \<Rightarrow> int \<Rightarrow> database \<Rightarrow> nat \<Rightarrow> CreateAvailabilityDto \<Rightarrow> (error + database \<times> CreateResult) option" where
  "createAvailability R now db providerId dto =
     (if providerId \<notin> set (providers db) then Some (Inl (NotFoundException ''Provider not found''))
      else if \<not> isValidTimezone R (dto_timezone dto)
        then Some (Inl (BadRequestException ''Invalid timezone''))
      else
        (case validateSlotGeneration R (configOf dto) of
           Inl e \<Rightarrow> Some (Inl e)
         | Inr validationErrors \<Rightarrow>
             if length validationErrors > 0
             then Some (Inl (BadRequestException (joinErrors validationErrors)))
             else
               (case checkAvailabilityConflicts R db providerId (configOf dto) of
                  None \<Rightarrow> None
                | Some (Inl e) \<Rightarrow> Some (Inl e)
                | Some (Inr u) \<Rightarrow>
                    (case requestedSlots R now dto of
                       None \<Rightarrow> None
                     | Some (Inl e) \<Rightarrow> Some (Inl e)
                     | Some (Inr slots) \<Rightarrow>
                         (case newSlotRows (Suc (nextId db)) (nextId db) providerId
                                 (dto_appointment_type dto) slots of
                            None \<Rightarrow> Some (Inl PersistenceError)
                          | Some rows \<Rightarrow>
                              Some (Inr
                                (db\<lparr>availabilities :=
                                       availabilities db @ [newAvailability (nextId db) providerId dto],
                                     appointmentSlots := appointmentSlots db @ rows,
                                     nextId := Suc (nextId db) + length rows\<rparr>,
                                 \<lparr>availability_id = nextId db,
                                   slots_created = length rows,
                                   date_range_start = dto_date dto,
                                   date_range_end =
                                     (case (dto_is_recurring dto, dto_recurrence_end_date dto) of
                                        (True, Some e) \<Rightarrow> e
                                      | _ \<Rightarrow> dto_date dto)\<rparr>)))))))"

text \<open>
  \<^verbatim>\<open>updateAvailabilitySlot\<close> and \<^verbatim>\<open>deleteAvailabilitySlot\<close>. \<^verbatim>\<open>findFirst\<close> takes the first
  slot with the identifier and the provider; the availability it belongs to comes with it.
  Of the update request only \<^verbatim>\<open>status\<close> and \<^verbatim>\<open>appointment_type\<close> are read.
\<close>

record UpdateAvailabilityDto =
  upd_status :: "AvailabilityStatus option"
  upd_appointment_type :: "string option"

record UpdateResult =
  res_id :: nat
  res_status :: SlotStatus
  res_appointment_type :: string
  res_slot_start_time :: int
  res_slot_end_time :: int

record DeleteResult =
  del_message :: string
  del_reason :: string

definition findSlot :: "database \<Rightarrow> nat \<Rightarrow> nat \<Rightarrow> AppointmentSlot option" where
  "findSlot db slotId providerId =
     find (\<lambda>slot. s_id slot = slotId \<and> s_providerId slot = providerId) (appointmentSlots db)"

definition availabilityOf :: "database \<Rightarrow> AppointmentSlot \<Rightarrow> ProviderAvailability option" where
  "availabilityOf db slot = find (\<lambda>a. a_id a = s_availabilityId slot) (availabilities db)"

fun allowedSlotStatus :: "AvailabilityStatus \<Rightarrow> SlotStatus option" where
  "allowedSlotStatus Available = Some available"
| "allowedSlotStatus Blocked = Some blocked"
| "allowedSlotStatus Cancelled = Some cancelled"
| "allowedSlotStatus Booked = None"
| "allowedSlotStatus Maintenance = None"

definition updateData :: "AppointmentSlot \<Rightarrow> UpdateAvailabilityDto \<Rightarrow> AppointmentSlot \<Rightarrow> AppointmentSlot" where
  "updateData slot dto row =
     (let row1 = row\<lparr>s_appointmentType :=
                   (case upd_appointment_type dto of
                      Some t \<Rightarrow> if t = [] then s_appointmentType slot else t
                    | None \<Rightarrow> s_appointmentType slot)\<rparr>
      in case upd_status dto of
           None \<Rightarrow> row1
         | Some st \<Rightarrow>
             (case allowedSlotStatus st of
                Some st' \<Rightarrow> row1\<lparr>s_status := st'\<rparr>
              | None \<Rightarrow> row1))"

definition updateAvailabilitySlot ::
  "database \<Rightarrow> nat \<Rightarrow> nat \<Rightarrow> UpdateAvailabilityDto \<Rightarrow> error + database \<times> UpdateResult" where
  "updateAvailabilitySlot db slotId providerId dto =
     (case findSlot db slotId providerId of
        None \<Rightarrow> Inl (NotFoundException ''Slot not found'')
      | Some slot \<Rightarrow>
          if s_status slot = booked then Inl (ConflictException ''Cannot update booked slot'')
          else
            (let updatedSlot = updateData slot dto slot
             in Inr (db\<lparr>appointmentSlots :=
                        map (\<lambda>row. if s_id row = slotId then updateData slot dto row else row)
                          (appointmentSlots db)\<rparr>,
                     \<lparr>res_id = s_id updatedSlot, res_status = s_status updatedSlot,
                       res_appointment_type = s_appointmentType updatedSlot,
                       res_slot_start_time = s_slotStartTime updatedSlot,
                       res_slot_end_time = s_slotEndTime updatedSlot\<rparr>)))"

definition deleteAvailabilitySlot ::
  "database \<Rightarrow> nat \<Rightarrow> nat \<Rightarrow> bool option \<Rightarrow> string option \<Rightarrow> error + database \<times> DeleteResult" where
  "deleteAvailabilitySlot db slotId providerId deleteRecurring reason =
     (case findSlot db slotId providerId of
        None \<Rightarrow> Inl (NotFoundException ''Slot not found'')
      | Some slot \<Rightarrow>
          if s_status slot = booked then Inl (ConflictException ''Cannot delete booked slot'')
          else
            (let result = \<lparr>del_message = ''Slot deleted successfully'',
                           del_reason = (case reason of
                                           Some r \<Rightarrow> if r = [] then ''Provider request'' else r
                                         | None \<Rightarrow> ''Provider request'')\<rparr>;
                 single = db\<lparr>appointmentSlots :=
                               filter (\<lambda>row. s_id row \<noteq> slotId) (appointmentSlots db)\<rparr>
             in if deleteRecurring = Some True
                then (case availabilityOf db slot of
                        None \<Rightarrow> Inl TypeError
                      | Some availability \<Rightarrow>
                          if a_isRecurring availability
                          then Inr (db\<lparr>appointmentSlots :=
                                        filter (\<lambda>row. \<not> (s_availabilityId row = s_availabilityId slot \<and>
                                                          s_status row \<noteq> booked))
                                          (appointmentSlots db),
                                       availabilities :=
                                        map (\<lambda>a. if a_id a = s_availabilityId slot
                                                  then a\<lparr>a_status := Cancelled\<rparr> else a)
                                          (availabilities db)\<rparr>,
                                    result)
                          else Inr (single, result))
                else Inr (single, result)))"

text \<open>
  The price filter of \<^verbatim>\<open>searchAvailableSlots\<close>, the last of the filters applied to the
  rows the query returned (each slot with its availability). \<^verbatim>\<open>if (searchDto.max_price)\<close>
  is false for an absent maximum and for the number 0.
\<close>

definition filterByPrice ::
  "rat option \<Rightarrow> (AppointmentSlot \<times> ProviderAvailability) list \<Rightarrow> (AppointmentSlot \<times> ProviderAvailability) list" where
  "filterByPrice max_price filteredSlots =
     (case max_price of
        None \<Rightarrow> filteredSlots
      | Some mp \<Rightarrow>
          if mp = 0 then filteredSlots
          else filter (\<lambda>(slot, availability).
                         case a_pricing availability of
                           None \<Rightarrow> True
                         | Some pricing \<Rightarrow> base_fee pricing \<le> mp)
                 filteredSlots)"

subsection \<open>Example data\<close>

text \<open>
  A runtime that knows the zones \<^verbatim>\<open>UTC\<close> and \<^verbatim>\<open>Asia/Kolkata\<close>, with the library's default
  settings, on a server whose zone is UTC. The day 2024-08-01 begins at 1722470400000.
\<close>

definition exRuntime :: runtime where
  "exRuntime =
     \<lparr>zoneOffset = (\<lambda>z. if z = ''UTC'' then Some 0
                         else if z = ''Asia/Kolkata'' then Some 330 else None),
      throwOnInvalid = False, systemOffset = 0\<rparr>"

definition exExisting :: GeneratedSlot where
  "exExisting = \<lparr>gs_startTime = ''10:00'', gs_endTime = ''10:30'',
                  gs_slotStartTime = Some 1722506400000, gs_slotEndTime = Some 1722508200000\<rparr>"

definition exTouching :: GeneratedSlot where
  "exTouching = \<lparr>gs_startTime = ''09:30'', gs_endTime = ''10:00'',
                  gs_slotStartTime = Some 1722504600000, gs_slotEndTime = Some 1722506400000\<rparr>"

definition exOverlapping :: GeneratedSlot where
  "exOverlapping = \<lparr>gs_startTime = ''10:15'', gs_endTime = ''10:45'',
                     gs_slotStartTime = Some 1722507300000, gs_slotEndTime = Some 1722509100000\<rparr>"

text \<open>
  The slot that \<^verbatim>\<open>generateSlotsForDay\<close> pushes when the current time is \<open>t\<close> minutes after
  midnight (used to state what the loop produces).
\<close>

definition slotAt :: "runtime \<Rightarrow> SlotGenerationConfig \<Rightarrow> int \<Rightarrow> GeneratedSlot" where
  "slotAt R c t =
     \<lparr>gs_startTime = formatHHmm t, gs_endTime = formatHHmm (t + slotDuration c),
      gs_slotStartTime = toUTC R (date c) (formatHHmm t) (timezone c),
      gs_slotEndTime = toUTC R (date c) (formatHHmm (t + slotDuration c)) (timezone c)\<rparr>"

definition exScenarioA :: SlotGenerationConfig where
  "exScenarioA = \<lparr>startTime = ''09:00'', endTime = ''17:00'', slotDuration = 30,
                   breakDuration = 15, timezone = ''UTC'', date = 1722470400000\<rparr>"

definition exScenarioB :: SlotGenerationConfig where
  "exScenarioB = \<lparr>startTime = ''09:00'', endTime = ''09:40'', slotDuration = 30,
                   breakDuration = 0, timezone = ''UTC'', date = 1722470400000\<rparr>"

definition exWrapConfig :: SlotGenerationConfig where
  "exWrapConfig = \<lparr>startTime = ''23:00'', endTime = ''23:50'', slotDuration = 40,
                    breakDuration = 0, timezone = ''UTC'', date = 1722470400000\<rparr>"

definition exBadConfig :: SlotGenerationConfig where
  "exBadConfig = \<lparr>startTime = ''9am'', endTime = ''17:00'', slotDuration = 30,
                   breakDuration = 15, timezone = ''UTC'', date = 1722470400000\<rparr>"


text \<open>
  The slots of the day 2024-08-01 in UTC for the window 09:00 to 17:00 with slots of 30
  minutes and breaks of 15 minutes.
\<close>

definition exScenarioASlots :: "GeneratedSlot list" where
  "exScenarioASlots =
     [\<lparr>gs_startTime = ''09:00'', gs_endTime = ''09:30'',
        gs_slotStartTime = Some 1722502800000, gs_slotEndTime = Some 1722504600000\<rparr>,
      \<lparr>gs_startTime = ''09:45'', gs_endTime = ''10:15'',
        gs_slotStartTime = Some 1722505500000, gs_slotEndTime = Some 1722507300000\<rparr>,
      \<lparr>gs_startTime = ''10:30'', gs_endTime = ''11:00'',
        gs_slotStartTime = Some 1722508200000, gs_slotEndTime = Some 1722510000000\<rparr>,
      \<lparr>gs_startTime = ''11:15'', gs_endTime = ''11:45'',
        gs_slotStartTime = Some 1722510900000, gs_slotEndTime = Some 1722512700000\<rparr>,
      \<lparr>gs_startTime = ''12:00'', gs_endTime = ''12:30'',
        gs_slotStartTime = Some 1722513600000, gs_slotEndTime = Some 1722515400000\<rparr>,
      \<lparr>gs_startTime = ''12:45'', gs_endTime = ''13:15'',
        gs_slotStartTime = Some 1722516300000, gs_slotEndTime = Some 1722518100000\<rparr>,
      \<lparr>gs_startTime = ''13:30'', gs_endTime = ''14:00'',
        gs_slotStartTime = Some 1722519000000, gs_slotEndTime = Some 1722520800000\<rparr>,
      \<lparr>gs_startTime = ''14:15'', gs_endTime = ''14:45'',
        gs_slotStartTime = Some 1722521700000, gs_slotEndTime = Some 1722523500000\<rparr>,
      \<lparr>gs_startTime = ''15:00'', gs_endTime = ''15:30'',
        gs_slotStartTime = Some 1722524400000, gs_slotEndTime = Some 1722526200000\<rparr>,
      \<lparr>gs_startTime = ''15:45'', gs_endTime = ''16:15'',
        gs_slotStartTime = Some 1722527100000, gs_slotEndTime = Some 1722528900000\<rparr>,
      \<lparr>gs_startTime = ''16:30'', gs_endTime = ''17:00'',
        gs_slotStartTime = Some 1722529800000, gs_slotEndTime = Some 1722531600000\<rparr>]"

text \<open>
  A database with two providers. Provider 1 has a weekly availability (row 10) with three
  slots, of which the first is booked, and a single-day availability (row 20) with one slot.
\<close>

definition exLocation :: Location where
  "exLocation = \<lparr>loc_type = ''clinic'', loc_address = ''Main Street, Pune, IN'',
                  loc_room_number = Some ''203'', loc_building = None, loc_floor = None,
                  loc_instructions = None\<rparr>"

definition exPricing :: Pricing where
  "exPricing = \<lparr>base_fee = 500, insurance_accepted = Some True, currency = ''INR''\<rparr>"

definition exAvailability :: ProviderAvailability where
  "exAvailability =
     \<lparr>a_id = 10, a_providerId = 1, a_date = 1722470400000,
      a_startTime = ''09:00'', a_endTime = ''10:00'', a_timezone = ''UTC'',
      a_isRecurring = True, a_recurrencePattern = Some weekly,
      a_recurrenceEndDate = Some 1723075200000,
      a_slotDuration = 30, a_breakDuration = 0, a_status = Available,
      a_maxAppointmentsPerSlot = 1, a_currentAppointments = 1,
      a_appointmentType = ''consultation'', a_location = exLocation,
      a_pricing = Some exPricing, a_specialRequirements = [], a_notes = None\<rparr>"

definition exAvailabilitySingle :: ProviderAvailability where
  "exAvailabilitySingle =
     \<lparr>a_id = 20, a_providerId = 1, a_date = 1722556800000,
      a_startTime = ''09:00'', a_endTime = ''09:30'', a_timezone = ''UTC'',
      a_isRecurring = False, a_recurrencePattern = None, a_recurrenceEndDate = None,
      a_slotDuration = 30, a_breakDuration = 0, a_status = Available,
      a_maxAppointmentsPerSlot = 1, a_currentAppointments = 0,
      a_appointmentType = ''consultation'', a_location = exLocation,
      a_pricing = None, a_specialRequirements = [], a_notes = None\<rparr>"

definition exSlotBooked :: AppointmentSlot where
  "exSlotBooked =
     \<lparr>s_id = 11, s_availabilityId = 10, s_providerId = 1,
      s_slotStartTime = 1722502800000, s_slotEndTime = 1722504600000, s_status = booked,
      s_patientId = Some 7, s_appointmentType = ''consultation'',
      s_bookingReference = Some ''BK-0001''\<rparr>"

definition exSlotFree :: AppointmentSlot where
  "exSlotFree =
     \<lparr>s_id = 12, s_availabilityId = 10, s_providerId = 1,
      s_slotStartTime = 1722504600000, s_slotEndTime = 1722506400000, s_status = available,
      s_patientId = None, s_appointmentType = ''consultation'', s_bookingReference = None\<rparr>"

definition exSlotNextWeek :: AppointmentSlot where
  "exSlotNextWeek =
     \<lparr>s_id = 13, s_availabilityId = 10, s_providerId = 1,
      s_slotStartTime = 1723107600000, s_slotEndTime = 1723109400000, s_status = available,
      s_patientId = None, s_appointmentType = ''consultation'', s_bookingReference = None\<rparr>"

definition exSlotSingle :: AppointmentSlot where
  "exSlotSingle =
     \<lparr>s_id = 21, s_availabilityId = 20, s_providerId = 1,
      s_slotStartTime = 1722589200000, s_slotEndTime = 1722591000000, s_status = available,
      s_patientId = None, s_appointmentType = ''consultation'', s_bookingReference = None\<rparr>"

definition exDb :: database where
  "exDb = \<lparr>providers = [1, 2],
            availabilities = [exAvailability, exAvailabilitySingle],
            appointmentSlots = [exSlotBooked, exSlotFree, exSlotNextWeek, exSlotSingle],
            nextId = 22\<rparr>"

definition exUpdate :: UpdateAvailabilityDto where
  "exUpdate = \<lparr>upd_status = Some Booked, upd_appointment_type = Some ''follow_up''\<rparr>"

text \<open>
  Two slot rows that agree in every column except, possibly, \<^verbatim>\<open>status\<close> and
  \<^verbatim>\<open>appointmentType\<close>.
\<close>

definition sameButStatusAndType :: "AppointmentSlot \<Rightarrow> AppointmentSlot \<Rightarrow> bool" where
  "sameButStatusAndType old new \<longleftrightarrow>
     s_id new = s_id old \<and> s_availabilityId new = s_availabilityId old
   \<and> s_providerId new = s_providerId old
   \<and> s_slotStartTime new = s_slotStartTime old \<and> s_slotEndTime new = s_slotEndTime old
   \<and> s_patientId new = s_patientId old \<and> s_bookingReference new = s_bookingReference old"

text \<open>
  Two requests of provider 1. The first asks for 09:00 to 10:00 daily from 2024-07-31 to
  2024-08-01; the rows it leads to are \<open>exRecurringRows\<close>. The second asks for 09:00 to 09:30
  weekly from 2024-10-01 and names no end date; made on 2024-07-20 (1721433600000) it leads
  to the rows \<open>exOpenEndedRows\<close>.
\<close>

definition exRecurringRequest :: CreateAvailabilityDto where
  "exRecurringRequest =
     \<lparr>dto_date = 1722384000000, dto_start_time = ''09:00'', dto_end_time = ''10:00'',
      dto_timezone = ''UTC'', dto_slot_duration = 30, dto_break_duration = 0,
      dto_is_recurring = True, dto_recurrence_pattern = Some daily,
      dto_recurrence_end_date = Some 1722470400000,
      dto_appointment_type = ''consultation'', dto_location = exLocation,
      dto_pricing = Some exPricing, dto_special_requirements = None, dto_notes = None,
      dto_max_appointments_per_slot = None\<rparr>"

definition exOpenEndedRequest :: CreateAvailabilityDto where
  "exOpenEndedRequest =
     \<lparr>dto_date = 1727740800000, dto_start_time = ''09:00'', dto_end_time = ''09:30'',
      dto_timezone = ''UTC'', dto_slot_duration = 30, dto_break_duration = 0,
      dto_is_recurring = True, dto_recurrence_pattern = Some weekly,
      dto_recurrence_end_date = None,
      dto_appointment_type = ''consultation'', dto_location = exLocation,
      dto_pricing = None, dto_special_requirements = None, dto_notes = None,
      dto_max_appointments_per_slot = None\<rparr>"

definition exRecurringRows :: "AppointmentSlot list" where
  "exRecurringRows =
     [\<lparr>s_id = 23, s_availabilityId = 22, s_providerId = 1,
        s_slotStartTime = 1722416400000, s_slotEndTime = 1722418200000, s_status = available,
        s_patientId = None, s_appointmentType = ''consultation'', s_bookingReference = None\<rparr>,
      \<lparr>s_id = 24, s_availabilityId = 22, s_providerId = 1,
        s_slotStartTime = 1722418200000, s_slotEndTime = 1722420000000, s_status = available,
        s_patientId = None, s_appointmentType = ''consultation'', s_bookingReference = None\<rparr>,
      \<lparr>s_id = 25, s_availabilityId = 22, s_providerId = 1,
        s_slotStartTime = 1722502800000, s_slotEndTime = 1722504600000, s_status = available,
        s_patientId = None, s_appointmentType = ''consultation'', s_bookingReference = None\<rparr>,
      \<lparr>s_id = 26, s_availabilityId = 22, s_providerId = 1,
        s_slotStartTime = 1722504600000, s_slotEndTime = 1722506400000, s_status = available,
        s_patientId = None, s_appointmentType = ''consultation'', s_bookingReference = None\<rparr>]"

definition exOpenEndedRows :: "AppointmentSlot list" where
  "exOpenEndedRows =
     [\<lparr>s_id = 23, s_availabilityId = 22, s_providerId = 1,
        s_slotStartTime = 1727773200000, s_slotEndTime = 1727775000000, s_status = available,
        s_patientId = None, s_appointmentType = ''consultation'', s_bookingReference = None\<rparr>,
      \<lparr>s_id = 24, s_availabilityId = 22, s_providerId = 1,
        s_slotStartTime = 1728378000000, s_slotEndTime = 1728379800000, s_status = available,
        s_patientId = None, s_appointmentType = ''consultation'', s_bookingReference = None\<rparr>,
      \<lparr>s_id = 25, s_availabilityId = 22, s_providerId = 1,
        s_slotStartTime = 1728982800000, s_slotEndTime = 1728984600000, s_status = available,
        s_patientId = None, s_appointmentType = ''consultation'', s_bookingReference = None\<rparr>]"


section \<open>Times of day\<close>


lemma digit_table:
  "list_all (\<lambda>n. digitVal (digitChar n) = Some n \<and> (of_char (digitChar n) :: nat) = 48 + n) [0..<10]"
  by (simp add: upt_rec digitVal_def digitChar_def)

lemma digitVal_digitChar: "n < 10 \<Longrightarrow> digitVal (digitChar n) = Some n"
  using digit_table by (simp add: list_all_iff)

lemma parse_format: "0 \<le> t \<Longrightarrow> t < 1440 \<Longrightarrow> parseHHmm (formatHHmm t) = Some (nat t)"
proof -
  assume a: "0 \<le> t" "t < 1440"
  define w where "w = nat t"
  have w: "w < 1440" using a by (simp add: w_def)
  have tm: "nat (t mod 1440) = w" using a by (simp add: w_def)
  have h: "w div 60 \<le> 23" using w by simp
  have d1: "w div 60 div 10 < 10" using w by simp
  have d2: "w div 60 mod 10 < 10" by simp
  have d3: "w mod 60 div 10 < 10" by (simp add: less_mult_imp_div_less)
  have d4: "w mod 60 mod 10 < 10" by simp
  have e1: "10 * (w div 60 div 10) + w div 60 mod 10 = w div 60" by simp
  have e2: "10 * (w mod 60 div 10) + w mod 60 mod 10 = w mod 60" by simp
  have e3: "60 * (w div 60) + w mod 60 = w" by simp
  have m: "w mod 60 \<le> 59" by (simp add: Suc_leI less_Suc_eq_le)
  show ?thesis
    unfolding parseHHmm_def formatHHmm_def Let_def tm
    using h m by (simp add: digitVal_digitChar d1 d2 d3 d4 e1 e2 e3 w_def[symmetric] del: mult_div_mod_eq div_mult_mod_eq)
qed

lemma formatHHmm_mod: "formatHHmm (t mod 1440) = formatHHmm t"
  by (simp add: formatHHmm_def)

lemma parse_format_mod: "parseHHmm (formatHHmm t) = Some (nat (t mod 1440))"
proof -
  have "parseHHmm (formatHHmm (t mod 1440)) = Some (nat (t mod 1440))"
    by (rule parse_format) simp_all
  then show ?thesis by (simp only: formatHHmm_mod)
qed

lemma of_char_digitChar: "n < 10 \<Longrightarrow> (of_char (digitChar n) :: nat) = 48 + n"
  using digit_table by (simp add: list_all_iff)

lemma digitChar_digitVal: "digitVal c = Some n \<Longrightarrow> digitChar n = c"
proof -
  assume a: "digitVal c = Some n"
  then have n: "(of_char c :: nat) = 48 + n" "n < 10"
    by (auto simp: digitVal_def Let_def split: if_splits)
  have "(of_char (digitChar n) :: nat) = of_char c"
    using n by (simp add: of_char_digitChar)
  then show ?thesis by (simp only: of_char_eq_iff)
qed

lemma format_parse:
  assumes "parseHHmm s = Some t" and "t < 1440"
  shows "formatHHmm (int t) = s"
proof -
  from assms(1) obtain h1 h2 sep m1 m2 where s: "s = [h1, h2, sep, m1, m2]"
    by (auto simp: parseHHmm_def split: list.splits)
  from assms(1) obtain a b x y where d: "digitVal h1 = Some a" "digitVal h2 = Some b"
      "digitVal m1 = Some x" "digitVal m2 = Some y"
    by (auto simp: parseHHmm_def s split: option.splits)
  have lt: "a < 10" "b < 10" "x < 10" "y < 10"
    using d by (auto simp: digitVal_def Let_def split: if_splits)
  from assms d have v: "sep = CHR '':''" "10 * x + y \<le> 59" "t = 60 * (10 * a + b) + (10 * x + y)"
    by (auto simp: parseHHmm_def s Let_def split: if_splits)
  have h: "t div 60 = 10 * a + b" using v(2,3) by simp
  have "t mod 60 = (10 * x + y) mod 60" unfolding v(3) by (rule mod_mult_self4)
  then have m: "t mod 60 = 10 * x + y" using v(2) by simp
  have "t div 60 div 10 = a" "t div 60 mod 10 = b" "t mod 60 div 10 = x" "t mod 60 mod 10 = y"
    unfolding h m using lt by simp_all
  moreover have "nat (int t mod 1440) = t" using assms(2) by simp
  ultimately show ?thesis
    using d v(1) by (simp add: formatHHmm_def Let_def s digitChar_digitVal)
qed

lemma parse_le: "parseHHmm s = Some t \<Longrightarrow> t \<le> 1440"
  by (auto simp: parseHHmm_def Let_def split: list.splits option.splits if_splits)

lemma div_nonpos: "(x::int) < p \<Longrightarrow> 0 < p \<Longrightarrow> x div p \<le> 0"
  by (metis div_pos_neg_trivial linorder_not_less not_less_iff_gr_or_eq pos_imp_zdiv_neg_iff zdiv_eq_0_iff order_le_less)


section \<open>Slot generation\<close>

lemma slotRound_minutes:
  assumes "parseHHmm cur = Some t"
      and "parseHHmm (endTime c) = Some e"
  shows "slotRound R c cur slots =
     Inr (formatHHmm (int t + slotDuration c + breakDuration c),
          if nat ((int t + slotDuration c) mod 1440) \<le> e
          then slots @ [\<lparr>gs_startTime = cur, gs_endTime = formatHHmm (int t + slotDuration c),
                 gs_slotStartTime = toUTC R (date c) cur (timezone c),
                 gs_slotEndTime = toUTC R (date c) (formatHHmm (int t + slotDuration c)) (timezone c)\<rparr>]
          else slots)"
proof -
  have f: "formatHHmm (int (nat ((int t + slotDuration c) mod 1440)) + breakDuration c)
           = formatHHmm (int t + slotDuration c + breakDuration c)"
  proof -
    have "formatHHmm (int (nat ((int t + slotDuration c) mod 1440)) + breakDuration c)
       = formatHHmm (((int t + slotDuration c) mod 1440 + breakDuration c) mod 1440)"
      by (simp add: formatHHmm_mod)
    also have "\<dots> = formatHHmm ((int t + slotDuration c + breakDuration c) mod 1440)"
      by (simp add: mod_add_left_eq)
    finally show ?thesis by (simp add: formatHHmm_mod)
  qed
  show ?thesis
    using assms f
    by (auto simp: slotRound_def addMinutes_def slotFits_def isTimeBefore_def isTimeEqual_def
        parse_format_mod Let_def)
qed

lemma loop_minutes:
  assumes "parseHHmm cur = Some t"
      and "parseHHmm (endTime c) = Some e"
  shows "generateSlotsLoop R c cur slots =
     (if t < e
      then generateSlotsLoop R c (formatHHmm (int t + slotDuration c + breakDuration c))
          (if nat ((int t + slotDuration c) mod 1440) \<le> e
          then slots @ [\<lparr>gs_startTime = cur, gs_endTime = formatHHmm (int t + slotDuration c),
                 gs_slotStartTime = toUTC R (date c) cur (timezone c),
                 gs_slotEndTime = toUTC R (date c) (formatHHmm (int t + slotDuration c)) (timezone c)\<rparr>]
          else slots)
      else Some (Inr slots))"
  apply (subst generateSlotsLoop.simps)
  apply (simp add: slotRound_minutes[OF assms] isTimeBefore_def assms)
  done

lemma loop_diverges:
  assumes e: "parseHHmm (endTime c) = Some e"
      and inv: "\<And>cur. I cur \<Longrightarrow>
                  \<exists>t. parseHHmm cur = Some t \<and> t < e \<and>
                      I (formatHHmm (int t + slotDuration c + breakDuration c))"
      and start: "I cur"
  shows "generateSlotsLoop R c cur slots = None"
proof (rule ccontr)
  assume "generateSlotsLoop R c cur slots \<noteq> None"
  then obtain y where y: "generateSlotsLoop R c cur slots = Some y" by auto
  have step: "\<not> (c' = c \<and> I cur')"
    if IH: "\<And>c'' cur'' slots'' b y''. gen c'' cur'' slots'' b = Some y'' \<Longrightarrow> \<not> (cur'' = c \<and> I slots'')"
    and body: "(case isTimeBefore cur' (endTime c') of Inl e \<Rightarrow> Some (Inl e)
      | Inr before \<Rightarrow>
          if before
          then case slotRound R' c' cur' slots' of
               Inl e \<Rightarrow> Some (Inl e)
               | Inr (next, slots'a) \<Rightarrow> gen R' c' next slots'a
          else Some (Inr slots')) = Some y'"
    for gen R' c' cur' slots' y'
  proof
    assume a: "c' = c \<and> I cur'"
    then obtain t where t: "parseHHmm cur' = Some t" "t < e"
        "I (formatHHmm (int t + slotDuration c + breakDuration c))"
      using inv by blast
    have b: "isTimeBefore cur' (endTime c) = Inr True"
      using t(1,2) e by (simp add: isTimeBefore_def)
    note r = slotRound_minutes[OF t(1) e, of R' slots']
    from body a have "\<exists>s'. gen R' c (formatHHmm (int t + slotDuration c + breakDuration c)) s' = Some y'"
      by (simp add: b r, blast)
    then obtain s' where "gen R' c (formatHHmm (int t + slotDuration c + breakDuration c)) s' = Some y'" ..
    then have "\<not> (c = c \<and> I (formatHHmm (int t + slotDuration c + breakDuration c)))"
      by (rule IH)
    then show False using t(3) by simp
  qed
  have "\<not> (c = c \<and> I cur)"
    by (rule generateSlotsLoop.raw_induct[where P = "\<lambda>R' c' cur' slots' y'. \<not> (c' = c \<and> I cur')", OF step y])
  then show False using start by simp
qed

lemma loop_closed:
  assumes e: "parseHHmm (endTime c) = Some e"
      and d: "0 < slotDuration c"
      and b: "0 \<le> breakDuration c"
      and nowrap: "int e + slotDuration c + breakDuration c \<le> 1440"
  shows "0 \<le> t \<Longrightarrow> t < 1440 \<Longrightarrow>
     generateSlotsLoop R c (formatHHmm t) acc =
       Some (Inr (acc @ map (\<lambda>k. slotAt R c (t + int k * (slotDuration c + breakDuration c)))
                         [0..<nat ((int e - t + breakDuration c) div (slotDuration c + breakDuration c))]))"
proof (induction "nat (int e - t)" arbitrary: t acc rule: less_induct)
  case less
  define p where "p = slotDuration c + breakDuration c"
  have p: "0 < p" using d b by (simp add: p_def)
  have pt: "parseHHmm (formatHHmm t) = Some (nat t)" using less.prems by (rule parse_format)
  have step: "generateSlotsLoop R c (formatHHmm t) acc =
      (if nat t < e
       then generateSlotsLoop R c (formatHHmm (t + p))
              (if nat ((t + slotDuration c) mod 1440) \<le> e then acc @ [slotAt R c t] else acc)
       else Some (Inr acc))"
    using loop_minutes[OF pt e, of R acc] less.prems by (simp add: p_def slotAt_def add.assoc)
  show ?case
  proof (cases "t < int e")
    case False
    then have "int e - t + breakDuration c < p" using d by (simp add: p_def)
    then have "(int e - t + breakDuration c) div p \<le> 0" using p by (rule div_nonpos)
    then have n: "nat ((int e - t + breakDuration c) div p) = 0" by simp
    have "\<not> nat t < e" using False less.prems by linarith
    then show ?thesis unfolding step p_def[symmetric] n by simp
  next
    case True
    then have lt: "nat t < e" using less.prems by linarith
    have t': "0 \<le> t + p" "t + p < 1440" using less.prems p True nowrap by (simp_all add: p_def)
    have m: "nat (int e - (t + p)) < nat (int e - t)" using True p by linarith
    have sd: "int (nat t) + slotDuration c = t + slotDuration c" using less.prems by simp
    have sdm: "(t + slotDuration c) mod 1440 = t + slotDuration c"
      using less.prems d True nowrap b by simp
    have next_eq: "int (nat t) + slotDuration c + breakDuration c = t + p"
      using less.prems by (simp add: p_def)
    note IH = less.hyps[OF m t'(1) t'(2), folded p_def]
    show ?thesis
    proof (cases "t + slotDuration c \<le> int e")
      case fits: True
      then have f: "nat ((t + slotDuration c) mod 1440) \<le> e" unfolding sdm using less.prems d by linarith
      have ge: "p \<le> int e - t + breakDuration c" using fits by (simp add: p_def)
      have "(int e - t + breakDuration c) div p = (int e - (t + p) + breakDuration c) div p + 1"
      proof -
        have "int e - t + breakDuration c = (int e - (t + p) + breakDuration c) + p" by simp
        then show ?thesis using p by (metis div_add_self2 less_irrefl)
      qed
      moreover have "0 \<le> (int e - (t + p) + breakDuration c) div p"
        using ge p by (simp add: pos_imp_zdiv_nonneg_iff)
      ultimately have n: "nat ((int e - t + breakDuration c) div p)
            = Suc (nat ((int e - (t + p) + breakDuration c) div p))"
        by simp
      have sl: "\<lparr>gs_startTime = formatHHmm t, gs_endTime = formatHHmm (t + slotDuration c),
                 gs_slotStartTime = toUTC R (date c) (formatHHmm t) (timezone c),
                 gs_slotEndTime = toUTC R (date c) (formatHHmm (t + slotDuration c)) (timezone c)\<rparr>
               = slotAt R c t"
        by (simp add: slotAt_def)
      have mp: "map (\<lambda>k. slotAt R c (t + int k * p)) [0..<Suc N]
            = slotAt R c t # map (\<lambda>k. slotAt R c (t + p + int k * p)) [0..<N]" for N
      proof -
        have "[0..<Suc N] = 0 # map Suc [0..<N]"
          by (simp add: upt_conv_Cons map_Suc_upt del: upt_Suc)
        then show ?thesis by (simp add: o_def algebra_simps del: upt_Suc)
      qed
      show ?thesis
        unfolding step p_def[symmetric] n mp
        using lt f by (simp add: IH)
    next
      case nofit: False
      then have f: "\<not> nat ((t + slotDuration c) mod 1440) \<le> e" unfolding sdm by linarith
      have "int e - t + breakDuration c < p" using nofit by (simp add: p_def)
      then have "(int e - t + breakDuration c) div p \<le> 0" using p by (rule div_nonpos)
      then have n: "nat ((int e - t + breakDuration c) div p) = 0" by simp
      have "int e - (t + p) + breakDuration c < p" using nofit p by (simp add: p_def)
      then have "(int e - (t + p) + breakDuration c) div p \<le> 0" using p by (rule div_nonpos)
      then have n': "nat ((int e - (t + p) + breakDuration c) div p) = 0" by simp
      show ?thesis
        unfolding step p_def[symmetric] n
        using lt f by (simp add: IH n')
    qed
  qed
qed

lemma generate_closed:
  assumes s: "parseHHmm (startTime c) = Some s"
      and e: "parseHHmm (endTime c) = Some e"
      and d: "0 < slotDuration c"
      and b: "0 \<le> breakDuration c"
      and nowrap: "int e + slotDuration c + breakDuration c \<le> 1440"
  shows "generateSlotsForDay R c =
           Some (Inr (map (\<lambda>k. slotAt R c (int s + int k * (slotDuration c + breakDuration c)))
                       [0..<nat ((int e - int s + breakDuration c) div (slotDuration c + breakDuration c))]))"
proof (cases "s < 1440")
  case True
  then have st: "startTime c = formatHHmm (int s)" using format_parse[OF s] by simp
  have "generateSlotsLoop R c (formatHHmm (int s)) [] =
       Some (Inr ([] @ map (\<lambda>k. slotAt R c (int s + int k * (slotDuration c + breakDuration c)))
                         [0..<nat ((int e - int s + breakDuration c) div (slotDuration c + breakDuration c))]))"
    using e d b nowrap by (rule loop_closed) (use True in simp_all)
  then show ?thesis by (simp add: generateSlotsForDay_def st)
next
  case False
  then have s1440: "s = 1440" using parse_le[OF s] by simp
  have "int e - int s + breakDuration c < slotDuration c + breakDuration c"
    using nowrap d b s1440 by linarith
  moreover have "0 < slotDuration c + breakDuration c" using d b by simp
  ultimately have "(int e - int s + breakDuration c) div (slotDuration c + breakDuration c) \<le> 0"
    by (rule div_nonpos)
  then have n: "nat ((int e - int s + breakDuration c) div (slotDuration c + breakDuration c)) = 0"
    by simp
  have "\<not> s < e" using s1440 parse_le[OF e] by simp
  then show ?thesis
    unfolding generateSlotsForDay_def loop_minutes[OF s e] n by simp
qed


lemma generate_length:
  assumes "parseHHmm (startTime c) = Some s"
      and "parseHHmm (endTime c) = Some e"
      and "0 < slotDuration c"
      and "0 \<le> breakDuration c"
      and "int e + slotDuration c + breakDuration c \<le> 1440"
  shows "map_option (map_sum id length) (generateSlotsForDay R c) =
           Some (Inr (nat ((int e - int s + breakDuration c) div (slotDuration c + breakDuration c))))"
  by (simp add: generate_closed[OF assms])

lemma calculateTotalSlots_minutes:
  assumes "parseHHmm (startTime c) = Some s"
      and "parseHHmm (endTime c) = Some e"
      and "0 < slotDuration c"
      and "0 \<le> breakDuration c"
  shows "calculateTotalSlots c = Inr (Some ((int e - int s) div (slotDuration c + breakDuration c)))"
  using assms by (simp add: calculateTotalSlots_def calculateDuration_def Let_def)

lemma validate_throws:
  "parseHHmm (startTime c) = None \<or> parseHHmm (endTime c) = None
     \<Longrightarrow> validateSlotGeneration R c = Inl InvalidTimeFormat"
  by (auto simp: validateSlotGeneration_def isTimeBefore_def Let_def split: option.splits)

text \<open>
  For times that can be read, \<^verbatim>\<open>validateSlotGeneration\<close> returns, and returns every
  message that applies, in the order of the checks.
\<close>

lemma validate_returns:
  assumes "parseHHmm (startTime c) = Some s" and "parseHHmm (endTime c) = Some e"
  shows "validateSlotGeneration R c =
     Inr ((if e < s then [''End time must be after start time.''] else [])
        @ (if slotDuration c \<le> 0 then [''Slot duration must be greater than 0.''] else [])
        @ (if breakDuration c < 0 then [''Break duration cannot be negative.''] else [])
        @ (if \<not> isValidTimezone R (timezone c) then [''Invalid timezone.''] else [])
        @ (if slotDuration c > int e - int s
           then [''Slot duration cannot be greater than total availability duration.'']
           else []))"
  using assms
  by (simp add: validateSlotGeneration_def isValidTimeFormat_def isTimeBefore_def
      calculateDuration_def Let_def)

text \<open>
  In a window that stays clear of midnight every slot produced ends within the window: the
  slot number \<open>k\<close> starts \<open>k\<close> rounds after the start and ends a slot duration later.
\<close>

lemma generated_slot_within_window:
  assumes "0 < slotDuration c" and "0 \<le> breakDuration c"
      and "k < nat ((int e - int s + breakDuration c) div (slotDuration c + breakDuration c))"
  shows "int s + int k * (slotDuration c + breakDuration c) + slotDuration c \<le> int e"
proof -
  define p where "p = slotDuration c + breakDuration c"
  have p: "0 < p" using assms(1,2) by (simp add: p_def)
  have "int k + 1 \<le> (int e - int s + breakDuration c) div p"
    using assms(3) by (simp add: p_def)
  then have "(int k + 1) * p \<le> (int e - int s + breakDuration c) div p * p"
    using p by (simp add: mult_right_mono)
  also have "\<dots> = (int e - int s + breakDuration c) - (int e - int s + breakDuration c) mod p"
    by (rule minus_mod_eq_div_mult[symmetric])
  also have "\<dots> \<le> int e - int s + breakDuration c"
    using p by simp
  finally have "int k * p + p \<le> int e - int s + breakDuration c"
    by (simp add: algebra_simps)
  then show ?thesis by (simp add: p_def)
qed

lemma slotAt_eval:
  "0 \<le> t \<Longrightarrow> t + slotDuration c < 1440 \<Longrightarrow> 0 \<le> slotDuration c \<Longrightarrow>
   zoneOffset R (timezone c) = Some off \<Longrightarrow>
   slotAt R c t =
     \<lparr>gs_startTime = formatHHmm t, gs_endTime = formatHHmm (t + slotDuration c),
      gs_slotStartTime = Some ((date c div msPerDay) * msPerDay + (t - off) * msPerMinute),
      gs_slotEndTime =
        Some ((date c div msPerDay) * msPerDay + (t + slotDuration c - off) * msPerMinute)\<rparr>"
  by (simp add: slotAt_def toUTC_def parse_format)

subsection \<open>The window 09:00 to 17:00, slots of 30 minutes, breaks of 15 minutes\<close>

lemma parse_0900: "parseHHmm ''09:00'' = Some 540"
  by (simp add: parseHHmm_def digitVal_def)

lemma parse_1700: "parseHHmm ''17:00'' = Some 1020"
  by (simp add: parseHHmm_def digitVal_def)

lemma scenarioA_closed:
  "generateSlotsForDay R exScenarioA =
     Some (Inr (map (\<lambda>k. slotAt R exScenarioA (540 + int k * 45)) [0..<11]))"
  using generate_closed[of exScenarioA 540 1020 R]
  by (simp add: exScenarioA_def parse_0900 parse_1700)

lemma upt_11: "[0..<11] = [0, 1, 2, 3, 4, 5, 6, 7, 8, 9, 10]"
  by (simp add: upt_rec)

lemma scenarioA_explicit:
  "generateSlotsForDay exRuntime exScenarioA = Some (Inr exScenarioASlots)"
  unfolding scenarioA_closed upt_11 exScenarioASlots_def
  by (simp add: slotAt_eval[where off = 0] exScenarioA_def exRuntime_def formatHHmm_def
      digitChar_def msPerDay_def msPerMinute_def)

lemma scenarioA_valid: "validateSlotGeneration exRuntime exScenarioA = Inr []"
  by (simp add: validateSlotGeneration_def isValidTimeFormat_def isTimeBefore_def
      calculateDuration_def isValidTimezone_def exScenarioA_def parse_0900 parse_1700 exRuntime_def)

text \<open>
  Claim C1. The configuration of the example request passes \<^verbatim>\<open>validateSlotGeneration\<close>;
  \<^verbatim>\<open>calculateTotalSlots\<close> returns 10 for it, and \<^verbatim>\<open>generateSlotsForDay\<close> returns 11 slots:
  the estimate charges a break after the last slot, the generator does not.
\<close>

theorem calculateTotalSlots_differs_from_generated:
  "validateSlotGeneration exRuntime exScenarioA = Inr []
   \<and> calculateTotalSlots exScenarioA = Inr (Some 10)
   \<and> map_option (map_sum id length) (generateSlotsForDay exRuntime exScenarioA) = Some (Inr 11)"
proof -
  have "calculateTotalSlots exScenarioA = Inr (Some 10)"
    using calculateTotalSlots_minutes[of exScenarioA 540 1020]
    by (simp add: exScenarioA_def parse_0900 parse_1700)
  moreover have "map_option (map_sum id length) (generateSlotsForDay exRuntime exScenarioA)
                   = Some (Inr 11)"
    by (simp add: scenarioA_closed)
  ultimately show ?thesis
    using scenarioA_valid by simp
qed

text \<open>
  Claim C3, as the code has it: for the window 09:00 to 17:00 with slots of 30 minutes and
  breaks of 15 minutes \<^verbatim>\<open>generateSlotsForDay\<close> produces exactly 11 slots, the first from
  09:00 to 09:30, the last from 16:30 to 17:00, and each slot starts 15 minutes after the
  slot before it ends, both on the clock and in UTC (900000 milliseconds).
\<close>

theorem scenarioA_eleven_slots:
  "generateSlotsForDay exRuntime exScenarioA = Some (Inr exScenarioASlots)
   \<and> length exScenarioASlots = 11
   \<and> map (\<lambda>slot. (gs_startTime slot, gs_endTime slot)) exScenarioASlots =
       [(''09:00'', ''09:30''),
        (''09:45'', ''10:15''),
        (''10:30'', ''11:00''),
        (''11:15'', ''11:45''),
        (''12:00'', ''12:30''),
        (''12:45'', ''13:15''),
        (''13:30'', ''14:00''),
        (''14:15'', ''14:45''),
        (''15:00'', ''15:30''),
        (''15:45'', ''16:15''),
        (''16:30'', ''17:00'')]
   \<and> map (\<lambda>(a, b). calculateDuration (gs_endTime a) (gs_startTime b))
         (zip exScenarioASlots (tl exScenarioASlots)) = replicate 10 (Inr 15)
   \<and> map (\<lambda>(a, b). case (gs_slotEndTime a, gs_slotStartTime b) of
                      (Some en, Some st) \<Rightarrow> Some (st - en)
                    | _ \<Rightarrow> None)
         (zip exScenarioASlots (tl exScenarioASlots)) = replicate 10 (Some 900000)"
proof -
  have "map (\<lambda>(a, b). calculateDuration (gs_endTime a) (gs_startTime b))
         (zip exScenarioASlots (tl exScenarioASlots)) = replicate 10 (Inr 15)"
    by (simp add: exScenarioASlots_def calculateDuration_def parseHHmm_def digitVal_def
        numeral_eq_Suc)
  moreover have "map (\<lambda>(a, b). case (gs_slotEndTime a, gs_slotStartTime b) of
                      (Some en, Some st) \<Rightarrow> Some (st - en)
                    | _ \<Rightarrow> None)
         (zip exScenarioASlots (tl exScenarioASlots)) = replicate 10 (Some 900000)"
    by (simp add: exScenarioASlots_def numeral_eq_Suc)
  moreover have "length exScenarioASlots = 11"
    by (simp add: exScenarioASlots_def)
  moreover have "map (\<lambda>slot. (gs_startTime slot, gs_endTime slot)) exScenarioASlots =
       [(''09:00'', ''09:30''),
        (''09:45'', ''10:15''),
        (''10:30'', ''11:00''),
        (''11:15'', ''11:45''),
        (''12:00'', ''12:30''),
        (''12:45'', ''13:15''),
        (''13:30'', ''14:00''),
        (''14:15'', ''14:45''),
        (''15:00'', ''15:30''),
        (''15:45'', ''16:15''),
        (''16:30'', ''17:00'')]"
    by (simp add: exScenarioASlots_def)
  ultimately show ?thesis
    using scenarioA_explicit by simp
qed

theorem scenarioA_not_sixteen_slots:
  "map_option (map_sum id length) (generateSlotsForDay exRuntime exScenarioA) \<noteq> Some (Inr 16)"
  by (simp add: scenarioA_closed)

subsection \<open>Malformed times\<close>

lemma parse_9am: "parseHHmm ''9am'' = None"
  by (simp add: parseHHmm_def)

text \<open>
  Claim C4. For a configuration whose start time is not of the form HH:mm,
  \<^verbatim>\<open>validateSlotGeneration\<close> does not return a list of errors: the call of \<^verbatim>\<open>isTimeBefore\<close>
  throws after the message about the format has been pushed.
\<close>

theorem validateSlotGeneration_throws_on_malformed_time:
  "validateSlotGeneration R exBadConfig = Inl InvalidTimeFormat"
  by (rule validate_throws) (simp add: exBadConfig_def parse_9am)

subsection \<open>A window late in the evening\<close>

lemma wrap_end: "parseHHmm (endTime exWrapConfig) = Some 1430"
  by (simp add: exWrapConfig_def parseHHmm_def digitVal_def)

lemma wrap_start: "startTime exWrapConfig = formatHHmm 1380"
  by (simp add: exWrapConfig_def formatHHmm_def digitChar_def)

lemma wrap_inv:
  assumes m: "cur = formatHHmm m" "0 \<le> m" "m < 1440" "m mod 20 = 0"
  shows "\<exists>t. parseHHmm cur = Some t \<and> t < 1430 \<and>
      (\<exists>m. formatHHmm (int t + slotDuration exWrapConfig + breakDuration exWrapConfig) = formatHHmm m \<and>
         0 \<le> m \<and> m < 1440 \<and> m mod 20 = 0)"
proof -
  from m(4) have "20 dvd m" by (simp only: dvd_eq_mod_eq_0)
  then obtain k where k: "m = 20 * k" by (rule dvdE)
  have p: "parseHHmm cur = Some (nat m)" unfolding m(1) using m(2,3) by (rule parse_format)
  have "m \<le> 1420" using m(3) k by arith
  then have lt: "nat m < 1430" using m(2) by arith
  have "int (nat m) + slotDuration exWrapConfig + breakDuration exWrapConfig = m + 40"
    using m(2) by (simp add: exWrapConfig_def)
  then have f: "formatHHmm (int (nat m) + slotDuration exWrapConfig + breakDuration exWrapConfig)
        = formatHHmm ((m + 40) mod 1440)"
    by (simp only: formatHHmm_mod)
  have "(m + 40) mod 1440 mod 20 = (m + 40) mod 20"
    by (rule mod_mod_cancel) simp
  also have "\<dots> = 0" unfolding k by simp
  finally have r: "0 \<le> (m + 40) mod 1440 \<and> (m + 40) mod 1440 < 1440 \<and> (m + 40) mod 1440 mod 20 = 0"
    by simp
  show ?thesis
    apply (rule exI[of _ "nat m"])
    apply (intro conjI p lt)
    apply (rule exI[of _ "(m + 40) mod 1440"])
    apply (rule conjI[OF f r])
    done
qed


lemma wrap_diverges: "generateSlotsForDay R exWrapConfig = None"
  unfolding generateSlotsForDay_def
  apply (rule loop_diverges[where e = 1430 and I = "\<lambda>cur. \<exists>m. cur = formatHHmm m \<and> 0 \<le> m \<and> m < 1440 \<and> m mod 20 = 0"])
    apply (rule wrap_end)
   apply (elim exE conjE)
   apply (rule wrap_inv; assumption)
  apply (rule exI[of _ 1380])
  apply (simp add: wrap_start)
  done


lemma wrap_valid: "validateSlotGeneration exRuntime exWrapConfig = Inr []"
  by (simp add: validateSlotGeneration_def isValidTimeFormat_def isTimeBefore_def
      calculateDuration_def isValidTimezone_def exWrapConfig_def exRuntime_def
      parseHHmm_def digitVal_def)

lemma wrap_two_rounds:
  "generateSlotsLoop R exWrapConfig ''23:00'' [] =
     generateSlotsLoop R exWrapConfig ''00:20''
       [\<lparr>gs_startTime = ''23:00'', gs_endTime = ''23:40'',
          gs_slotStartTime = toUTC R 1722470400000 ''23:00'' ''UTC'',
          gs_slotEndTime = toUTC R 1722470400000 ''23:40'' ''UTC''\<rparr>,
        \<lparr>gs_startTime = ''23:40'', gs_endTime = ''00:20'',
          gs_slotStartTime = toUTC R 1722470400000 ''23:40'' ''UTC'',
          gs_slotEndTime = toUTC R 1722470400000 ''00:20'' ''UTC''\<rparr>]"
proof -
  have p1: "parseHHmm ''23:00'' = Some 1380" by (simp add: parseHHmm_def digitVal_def)
  have p2: "parseHHmm ''23:40'' = Some 1420" by (simp add: parseHHmm_def digitVal_def)
  have f1: "formatHHmm 1420 = ''23:40''" by (simp add: formatHHmm_def digitChar_def)
  have f2: "formatHHmm 1460 = ''00:20''" by (simp add: formatHHmm_def digitChar_def)
  have "generateSlotsLoop R exWrapConfig ''23:00'' [] =
     generateSlotsLoop R exWrapConfig ''23:40''
       [\<lparr>gs_startTime = ''23:00'', gs_endTime = ''23:40'',
          gs_slotStartTime = toUTC R 1722470400000 ''23:00'' ''UTC'',
          gs_slotEndTime = toUTC R 1722470400000 ''23:40'' ''UTC''\<rparr>]"
    using loop_minutes[of "''23:00''" 1380 exWrapConfig 1430 R "[]"] wrap_end
    by (simp add: p1 exWrapConfig_def f1)
  also have "\<dots> = generateSlotsLoop R exWrapConfig ''00:20''
       [\<lparr>gs_startTime = ''23:00'', gs_endTime = ''23:40'',
          gs_slotStartTime = toUTC R 1722470400000 ''23:00'' ''UTC'',
          gs_slotEndTime = toUTC R 1722470400000 ''23:40'' ''UTC''\<rparr>,
        \<lparr>gs_startTime = ''23:40'', gs_endTime = ''00:20'',
          gs_slotStartTime = toUTC R 1722470400000 ''23:40'' ''UTC'',
          gs_slotEndTime = toUTC R 1722470400000 ''00:20'' ''UTC''\<rparr>]"
    using loop_minutes[of "''23:40''" 1420 exWrapConfig 1430 R] wrap_end
    by (simp add: p2 exWrapConfig_def f2)
  finally show ?thesis .
qed

text \<open>
  Claim C8. The configuration with the window 23:00 to 23:50 and slots of 40 minutes
  passes \<^verbatim>\<open>validateSlotGeneration\<close>. Its second slot would end at 00:20 of the next day,
  after the end of the window; the loop pushes it all the same, because 00:20 printed
  without its day compares before 23:50, goes on from 00:20, and never returns.
\<close>

theorem generateSlotsForDay_past_midnight_never_returns:
  "validateSlotGeneration exRuntime exWrapConfig = Inr []
   \<and> generateSlotsLoop R exWrapConfig (startTime exWrapConfig) [] =
       generateSlotsLoop R exWrapConfig ''00:20''
         [\<lparr>gs_startTime = ''23:00'', gs_endTime = ''23:40'',
            gs_slotStartTime = toUTC R 1722470400000 ''23:00'' ''UTC'',
            gs_slotEndTime = toUTC R 1722470400000 ''23:40'' ''UTC''\<rparr>,
          \<lparr>gs_startTime = ''23:40'', gs_endTime = ''00:20'',
            gs_slotStartTime = toUTC R 1722470400000 ''23:40'' ''UTC'',
            gs_slotEndTime = toUTC R 1722470400000 ''00:20'' ''UTC''\<rparr>]
   \<and> generateSlotsForDay R exWrapConfig = None"
  using wrap_two_rounds[of R]
  by (simp add: wrap_valid wrap_diverges) (simp add: exWrapConfig_def)

text \<open>
  The window 09:00 to 09:40 with slots of 30 minutes and no break: one slot, from 09:00 to
  09:30; nothing is produced for the rest of the window.
\<close>

lemma scenarioB_one_slot:
  "generateSlotsForDay exRuntime exScenarioB =
     Some (Inr [\<lparr>gs_startTime = ''09:00'', gs_endTime = ''09:30'',
                  gs_slotStartTime = Some 1722502800000,
                  gs_slotEndTime = Some 1722504600000\<rparr>])"
proof -
  have "parseHHmm ''09:40'' = Some 580" by (simp add: parseHHmm_def digitVal_def)
  then have "generateSlotsForDay exRuntime exScenarioB =
      Some (Inr (map (\<lambda>k. slotAt exRuntime exScenarioB (540 + int k * 30)) [0..<1]))"
    using generate_closed[of exScenarioB 540 580 exRuntime]
    by (simp add: exScenarioB_def parse_0900)
  then show ?thesis
    by (simp add: slotAt_eval[where off = 0] exScenarioB_def exRuntime_def formatHHmm_def
        digitChar_def msPerDay_def msPerMinute_def)
qed

section \<open>Conflict detection\<close>

lemma overlapsSome_iff: "overlapsSome n es \<longleftrightarrow> (\<exists>e\<in>set es. slotsOverlap n e)"
  by (induction es) auto

lemma overlapLoop_filter:
  "overlapLoop ns es acc = acc @ filter (\<lambda>n. overlapsSome n es) ns"
  by (induction ns arbitrary: acc) auto

lemma slotsOverlap_valid:
  "gs_slotStartTime a = Some sa \<Longrightarrow> gs_slotEndTime a = Some ea \<Longrightarrow>
   gs_slotStartTime b = Some sb \<Longrightarrow> gs_slotEndTime b = Some eb \<Longrightarrow>
   slotsOverlap a b \<longleftrightarrow> sa < eb \<and> sb < ea"
  by (simp add: slotsOverlap_def dateLess_def)

lemma dateLess_irrefl: "\<not> dateLess x x"
  by (simp add: dateLess_def split: option.splits)

lemma touching_no_overlap:
  "gs_slotEndTime a = gs_slotStartTime b \<or> gs_slotEndTime b = gs_slotStartTime a
     \<Longrightarrow> \<not> slotsOverlap a b"
  by (auto simp: slotsOverlap_def dateLess_irrefl)

lemma checkForOverlappingSlots_no_existing: "checkForOverlappingSlots newSlots [] = []"
  by (simp add: checkForOverlappingSlots_def overlapLoop_filter)

text \<open>
  Claim C7. \<^verbatim>\<open>checkForOverlappingSlots\<close> returns exactly the new slots that overlap some
  existing slot, in their order; two slots with valid instants overlap if and only if
  each starts before the other ends; and two slots of which one ends at the instant the
  other starts do not overlap.
\<close>

theorem checkOverlap_is_conflicting_subset:
  "checkForOverlappingSlots newSlots existingSlots =
     filter (\<lambda>n. \<exists>e\<in>set existingSlots. slotsOverlap n e) newSlots
   \<and> (gs_slotStartTime a = Some sa \<and> gs_slotEndTime a = Some ea \<and>
      gs_slotStartTime b = Some sb \<and> gs_slotEndTime b = Some eb
        \<longrightarrow> (slotsOverlap a b \<longleftrightarrow> sa < eb \<and> sb < ea))
   \<and> (gs_slotEndTime a = gs_slotStartTime b \<or> gs_slotEndTime b = gs_slotStartTime a
        \<longrightarrow> \<not> slotsOverlap a b)"
  using slotsOverlap_valid[of a sa ea b sb eb] touching_no_overlap[of a b]
  by (simp add: checkForOverlappingSlots_def overlapLoop_filter overlapsSome_iff)

theorem checkOverlap_is_conflicting_subset_witness:
  "gs_slotEndTime exTouching = gs_slotStartTime exExisting
   \<and> gs_slotStartTime exTouching = Some 1722504600000
   \<and> gs_slotEndTime exTouching = Some 1722506400000
   \<and> gs_slotStartTime exExisting = Some 1722506400000
   \<and> gs_slotEndTime exExisting = Some 1722508200000
   \<and> \<not> slotsOverlap exTouching exExisting
   \<and> checkForOverlappingSlots [exTouching, exOverlapping] [exExisting] = [exOverlapping]"
  using checkOverlap_is_conflicting_subset
          [of "[exTouching, exOverlapping]" "[exExisting]" exTouching
              1722504600000 1722506400000 exExisting 1722506400000 1722508200000]
  by (simp add: exTouching_def exExisting_def exOverlapping_def slotsOverlap_def dateLess_def)

section \<open>The slot store\<close>

lemma find_SomeD: "find P xs = Some x \<Longrightarrow> x \<in> set xs \<and> P x"
  by (induction xs) (auto split: if_splits)

lemma find_NoneI: "(\<And>x. x \<in> set xs \<Longrightarrow> \<not> P x) \<Longrightarrow> find P xs = None"
  by (induction xs) auto

lemma find_distinct_key:
  "distinct (map f xs) \<Longrightarrow> x \<in> set xs \<Longrightarrow> P x \<Longrightarrow> (\<And>y. P y \<Longrightarrow> f y = f x) \<Longrightarrow> find P xs = Some x"
proof (induction xs)
  case Nil then show ?case by simp
next
  case (Cons y ys)
  show ?case
  proof (cases "P y")
    case True
    then have "f y = f x" by (rule Cons.prems(4))
    have "f y \<notin> f ` set ys" using Cons.prems(1) by simp
    then have "x \<notin> set ys" using \<open>f y = f x\<close> by (metis imageI)
    then have "y = x" using Cons.prems(2) by simp
    then show ?thesis using True by simp
  next
    case False
    then have "x \<in> set ys" using Cons.prems(2,3) by auto
    moreover have "distinct (map f ys)" using Cons.prems(1) by simp
    ultimately have "find P ys = Some x" using Cons.prems(3,4) by (rule_tac Cons.IH)
    then show ?thesis using False by simp
  qed
qed

lemma filter_key_remove1:
  "distinct (map f xs) \<Longrightarrow> x \<in> set xs \<Longrightarrow> filter (\<lambda>y. f y \<noteq> f x) xs = remove1 x xs"
proof (induction xs)
  case Nil then show ?case by simp
next
  case (Cons y ys)
  show ?case
  proof (cases "y = x")
    case True
    have "f x \<notin> f ` set ys" using Cons.prems(1) True by simp
    then have "\<forall>z\<in>set ys. f z \<noteq> f x" by (metis imageI)
    then have "filter (\<lambda>y. f y \<noteq> f x) ys = ys" by (simp add: filter_id_conv)
    then show ?thesis using True by simp
  next
    case False
    then have xin: "x \<in> set ys" using Cons.prems(2) by simp
    have "f y \<notin> f ` set ys" using Cons.prems(1) by simp
    then have "f y \<noteq> f x" using xin by (metis imageI)
    moreover have "filter (\<lambda>y. f y \<noteq> f x) ys = remove1 x ys"
      using Cons.prems(1) xin by (simp add: Cons.IH)
    ultimately show ?thesis using False by simp
  qed
qed

lemma findSlot_None:
  assumes "\<not> (\<exists>row\<in>set (appointmentSlots db). s_id row = slotId \<and> s_providerId row = providerId)"
  shows "findSlot db slotId providerId = None"
  unfolding findSlot_def
proof (rule find_NoneI)
  fix x assume "x \<in> set (appointmentSlots db)"
  then show "\<not> (s_id x = slotId \<and> s_providerId x = providerId)" using assms by (rule_tac notI) (rule_tac notE[OF assms], rule_tac bexI)
qed

lemma findSlot_the_row:
  "distinct (map s_id (appointmentSlots db)) \<Longrightarrow> slot \<in> set (appointmentSlots db) \<Longrightarrow>
   s_providerId slot = providerId \<Longrightarrow> findSlot db (s_id slot) providerId = Some slot"
  unfolding findSlot_def
  by (rule find_distinct_key[where f = s_id]) simp_all

lemma updateData_frame:
  "s_id (updateData slot dto row) = s_id row
   \<and> s_availabilityId (updateData slot dto row) = s_availabilityId row
   \<and> s_providerId (updateData slot dto row) = s_providerId row
   \<and> s_slotStartTime (updateData slot dto row) = s_slotStartTime row
   \<and> s_slotEndTime (updateData slot dto row) = s_slotEndTime row
   \<and> s_patientId (updateData slot dto row) = s_patientId row
   \<and> s_bookingReference (updateData slot dto row) = s_bookingReference row"
  by (simp add: updateData_def Let_def split: option.splits)

lemma updateData_status_ignored:
  "upd_status dto \<notin> {Some Available, Some Blocked, Some Cancelled}
     \<Longrightarrow> s_status (updateData slot dto row) = s_status row"
  by (cases "upd_status dto"; simp add: updateData_def Let_def split: option.splits)
     (case_tac a; simp)

lemma update_not_found:
  "\<not> (\<exists>row\<in>set (appointmentSlots db). s_id row = slotId \<and> s_providerId row = providerId)
     \<Longrightarrow> updateAvailabilitySlot db slotId providerId dto = Inl (NotFoundException ''Slot not found'')"
  by (simp add: updateAvailabilitySlot_def findSlot_None)

lemma delete_not_found:
  "\<not> (\<exists>row\<in>set (appointmentSlots db). s_id row = slotId \<and> s_providerId row = providerId)
     \<Longrightarrow> deleteAvailabilitySlot db slotId providerId deleteRecurring reason
           = Inl (NotFoundException ''Slot not found'')"
  by (simp add: deleteAvailabilitySlot_def findSlot_None)

lemma update_booked:
  "findSlot db slotId providerId = Some slot \<Longrightarrow> s_status slot = booked
     \<Longrightarrow> updateAvailabilitySlot db slotId providerId dto = Inl (ConflictException ''Cannot update booked slot'')"
  by (simp add: updateAvailabilitySlot_def)

lemma delete_booked:
  "findSlot db slotId providerId = Some slot \<Longrightarrow> s_status slot = booked
     \<Longrightarrow> deleteAvailabilitySlot db slotId providerId deleteRecurring reason
           = Inl (ConflictException ''Cannot delete booked slot'')"
  by (simp add: deleteAvailabilitySlot_def)

lemma delete_series:
  assumes "findSlot db slotId providerId = Some slot" and "s_status slot \<noteq> booked"
      and "availabilityOf db slot = Some availability" and "a_isRecurring availability"
  shows "\<exists>db' result.
           deleteAvailabilitySlot db slotId providerId (Some True) reason = Inr (db', result)
         \<and> appointmentSlots db' =
             filter (\<lambda>row. s_availabilityId row \<noteq> s_availabilityId slot \<or> s_status row = booked)
               (appointmentSlots db)
         \<and> availabilities db' =
             map (\<lambda>a. if a_id a = s_availabilityId slot then a\<lparr>a_status := Cancelled\<rparr> else a)
               (availabilities db)
         \<and> providers db' = providers db"
  using assms by (simp add: deleteAvailabilitySlot_def Let_def de_Morgan_conj)

lemma delete_single:
  assumes "findSlot db slotId providerId = Some slot" and "s_status slot \<noteq> booked"
      and "deleteRecurring \<noteq> Some True
           \<or> (availabilityOf db slot = Some availability \<and> \<not> a_isRecurring availability)"
  shows "\<exists>db' result.
           deleteAvailabilitySlot db slotId providerId deleteRecurring reason = Inr (db', result)
         \<and> appointmentSlots db' = filter (\<lambda>row. s_id row \<noteq> slotId) (appointmentSlots db)
         \<and> availabilities db' = availabilities db
         \<and> providers db' = providers db"
  using assms by (auto simp: deleteAvailabilitySlot_def Let_def)

lemma filter_booked_kept:
  "filter (\<lambda>row. s_status row = booked)
     (filter (\<lambda>row. s_availabilityId row \<noteq> aid \<or> s_status row = booked) rows)
   = filter (\<lambda>row. s_status row = booked) rows"
  by (induction rows) auto

lemma filter_others_kept:
  "filter (\<lambda>row. s_availabilityId row \<noteq> aid)
     (filter (\<lambda>row. s_availabilityId row \<noteq> aid \<or> s_status row = booked) rows)
   = filter (\<lambda>row. s_availabilityId row \<noteq> aid) rows"
  by (induction rows) auto

lemmas exDb_defs = exDb_def exSlotBooked_def exSlotFree_def exSlotNextWeek_def exSlotSingle_def
  exAvailability_def exAvailabilitySingle_def exUpdate_def


text \<open>
  Claim C6. \<^verbatim>\<open>updateAvailabilitySlot\<close> and \<^verbatim>\<open>deleteAvailabilitySlot\<close> fail with
  \<^verbatim>\<open>NotFound\<close> when no slot has the identifier and the provider. For a table with unique
  identifiers and a slot of the provider: both fail with \<^verbatim>\<open>Conflict\<close> when the slot is
  booked; deleting with \<^verbatim>\<open>deleteRecurring\<close> a slot that is not booked and whose
  availability is recurring removes exactly the slots of that availability that are not
  booked, leaves the booked slots and the slots of other availabilities as they are, and sets
  the status of the availability to cancelled; any other deletion of a slot that is not
  booked removes that one row and leaves the availabilities as they are.
\<close>

theorem update_delete_slot_rules:
  "(\<not> (\<exists>row\<in>set (appointmentSlots db). s_id row = slotId \<and> s_providerId row = providerId) \<longrightarrow>
      updateAvailabilitySlot db slotId providerId dto = Inl (NotFoundException ''Slot not found'')
    \<and> deleteAvailabilitySlot db slotId providerId deleteRecurring reason
        = Inl (NotFoundException ''Slot not found''))
   \<and> (distinct (map s_id (appointmentSlots db)) \<and> slot \<in> set (appointmentSlots db)
       \<and> s_id slot = slotId \<and> s_providerId slot = providerId \<longrightarrow>
       (s_status slot = booked \<longrightarrow>
          updateAvailabilitySlot db slotId providerId dto
            = Inl (ConflictException ''Cannot update booked slot'')
        \<and> deleteAvailabilitySlot db slotId providerId deleteRecurring reason
            = Inl (ConflictException ''Cannot delete booked slot''))
     \<and> (s_status slot \<noteq> booked \<and> deleteRecurring = Some True
         \<and> availabilityOf db slot = Some availability \<and> a_isRecurring availability \<longrightarrow>
          (\<exists>db' result.
              deleteAvailabilitySlot db slotId providerId deleteRecurring reason = Inr (db', result)
            \<and> appointmentSlots db' =
                filter (\<lambda>row. s_availabilityId row \<noteq> s_availabilityId slot \<or> s_status row = booked)
                  (appointmentSlots db)
            \<and> filter (\<lambda>row. s_status row = booked) (appointmentSlots db')
                = filter (\<lambda>row. s_status row = booked) (appointmentSlots db)
            \<and> filter (\<lambda>row. s_availabilityId row \<noteq> s_availabilityId slot) (appointmentSlots db')
                = filter (\<lambda>row. s_availabilityId row \<noteq> s_availabilityId slot) (appointmentSlots db)
            \<and> availabilities db' =
                map (\<lambda>a. if a_id a = s_availabilityId slot then a\<lparr>a_status := Cancelled\<rparr> else a)
                  (availabilities db)))
     \<and> (s_status slot \<noteq> booked
         \<and> (deleteRecurring \<noteq> Some True
             \<or> (availabilityOf db slot = Some availability \<and> \<not> a_isRecurring availability)) \<longrightarrow>
          (\<exists>db' result.
              deleteAvailabilitySlot db slotId providerId deleteRecurring reason = Inr (db', result)
            \<and> appointmentSlots db' = remove1 slot (appointmentSlots db)
            \<and> availabilities db' = availabilities db)))"
proof (intro conjI impI)
  assume "\<not> (\<exists>row\<in>set (appointmentSlots db). s_id row = slotId \<and> s_providerId row = providerId)"
  then show "updateAvailabilitySlot db slotId providerId dto = Inl (NotFoundException ''Slot not found'')"
    and "deleteAvailabilitySlot db slotId providerId deleteRecurring reason
        = Inl (NotFoundException ''Slot not found'')"
    by (rule update_not_found, rule delete_not_found)
next
  assume a: "distinct (map s_id (appointmentSlots db)) \<and> slot \<in> set (appointmentSlots db)
       \<and> s_id slot = slotId \<and> s_providerId slot = providerId"
  then have f: "findSlot db slotId providerId = Some slot"
    using findSlot_the_row[of db slot providerId] by auto
  {
    assume "s_status slot = booked"
    with f show "updateAvailabilitySlot db slotId providerId dto
            = Inl (ConflictException ''Cannot update booked slot'')"
      and "deleteAvailabilitySlot db slotId providerId deleteRecurring reason
            = Inl (ConflictException ''Cannot delete booked slot'')"
      by (rule update_booked, rule delete_booked)
  }
  {
    assume b: "s_status slot \<noteq> booked \<and> deleteRecurring = Some True
         \<and> availabilityOf db slot = Some availability \<and> a_isRecurring availability"
    then obtain db' result where d:
      "deleteAvailabilitySlot db slotId providerId (Some True) reason = Inr (db', result)"
      "appointmentSlots db' =
             filter (\<lambda>row. s_availabilityId row \<noteq> s_availabilityId slot \<or> s_status row = booked)
               (appointmentSlots db)"
      "availabilities db' =
             map (\<lambda>a. if a_id a = s_availabilityId slot then a\<lparr>a_status := Cancelled\<rparr> else a)
               (availabilities db)"
      using delete_series[OF f, of availability reason] by auto
    show "\<exists>db' result.
              deleteAvailabilitySlot db slotId providerId deleteRecurring reason = Inr (db', result)
            \<and> appointmentSlots db' =
                filter (\<lambda>row. s_availabilityId row \<noteq> s_availabilityId slot \<or> s_status row = booked)
                  (appointmentSlots db)
            \<and> filter (\<lambda>row. s_status row = booked) (appointmentSlots db')
                = filter (\<lambda>row. s_status row = booked) (appointmentSlots db)
            \<and> filter (\<lambda>row. s_availabilityId row \<noteq> s_availabilityId slot) (appointmentSlots db')
                = filter (\<lambda>row. s_availabilityId row \<noteq> s_availabilityId slot) (appointmentSlots db)
            \<and> availabilities db' =
                map (\<lambda>a. if a_id a = s_availabilityId slot then a\<lparr>a_status := Cancelled\<rparr> else a)
                  (availabilities db)"
    proof (intro exI[of _ db'] exI[of _ result] conjI)
      show "deleteAvailabilitySlot db slotId providerId deleteRecurring reason = Inr (db', result)"
        using b d(1) by simp
      show "filter (\<lambda>row. s_status row = booked) (appointmentSlots db')
                = filter (\<lambda>row. s_status row = booked) (appointmentSlots db)"
        unfolding d(2) by (rule filter_booked_kept)
      show "filter (\<lambda>row. s_availabilityId row \<noteq> s_availabilityId slot) (appointmentSlots db')
                = filter (\<lambda>row. s_availabilityId row \<noteq> s_availabilityId slot) (appointmentSlots db)"
        unfolding d(2) by (rule filter_others_kept)
    qed (rule d(2), rule d(3))
  }
  {
    assume b: "s_status slot \<noteq> booked
         \<and> (deleteRecurring \<noteq> Some True
             \<or> (availabilityOf db slot = Some availability \<and> \<not> a_isRecurring availability))"
    then obtain db' result where d:
      "deleteAvailabilitySlot db slotId providerId deleteRecurring reason = Inr (db', result)"
      "appointmentSlots db' = filter (\<lambda>row. s_id row \<noteq> slotId) (appointmentSlots db)"
      "availabilities db' = availabilities db"
      using delete_single[OF f, of deleteRecurring availability reason] by auto
    have "filter (\<lambda>row. s_id row \<noteq> s_id slot) (appointmentSlots db) = remove1 slot (appointmentSlots db)"
      using a by (intro filter_key_remove1) simp_all
    then show "\<exists>db' result.
              deleteAvailabilitySlot db slotId providerId deleteRecurring reason = Inr (db', result)
            \<and> appointmentSlots db' = remove1 slot (appointmentSlots db)
            \<and> availabilities db' = availabilities db"
      using a d by auto
  }
qed

theorem update_delete_slot_rules_witness:
  "updateAvailabilitySlot exDb 12 2 exUpdate = Inl (NotFoundException ''Slot not found'')
   \<and> deleteAvailabilitySlot exDb 12 2 None None = Inl (NotFoundException ''Slot not found'')
   \<and> updateAvailabilitySlot exDb 11 1 exUpdate = Inl (ConflictException ''Cannot update booked slot'')
   \<and> deleteAvailabilitySlot exDb 11 1 None None = Inl (ConflictException ''Cannot delete booked slot'')
   \<and> deleteAvailabilitySlot exDb 12 1 (Some True) None =
       Inr (exDb\<lparr>appointmentSlots := [exSlotBooked, exSlotSingle],
                 availabilities := [exAvailability\<lparr>a_status := Cancelled\<rparr>, exAvailabilitySingle]\<rparr>,
            \<lparr>del_message = ''Slot deleted successfully'', del_reason = ''Provider request''\<rparr>)
   \<and> deleteAvailabilitySlot exDb 12 1 None (Some ''emergency_leave'') =
       Inr (exDb\<lparr>appointmentSlots := [exSlotBooked, exSlotNextWeek, exSlotSingle]\<rparr>,
            \<lparr>del_message = ''Slot deleted successfully'', del_reason = ''emergency_leave''\<rparr>)"
  using update_delete_slot_rules[of exDb 12 2 exUpdate None None exSlotFree exAvailability]
        update_delete_slot_rules[of exDb 11 1 exUpdate None None exSlotBooked exAvailability]
        update_delete_slot_rules[of exDb 12 1 exUpdate "Some True" None exSlotFree exAvailability]
        update_delete_slot_rules[of exDb 12 1 exUpdate None "Some ''emergency_leave''" exSlotFree exAvailability]
  by (simp add: exDb_defs deleteAvailabilitySlot_def findSlot_def availabilityOf_def)


lemma update_succeeds:
  assumes "findSlot db slotId providerId = Some slot" and "s_status slot \<noteq> booked"
  shows "\<exists>db' result.
           updateAvailabilitySlot db slotId providerId dto = Inr (db', result)
         \<and> appointmentSlots db' =
             map (\<lambda>row. if s_id row = slotId then updateData slot dto row else row) (appointmentSlots db)
         \<and> availabilities db' = availabilities db
         \<and> providers db' = providers db"
  using assms by (simp add: updateAvailabilitySlot_def Let_def)

lemma frame_map:
  "list_all2 (\<lambda>old new. sameButStatusAndType old new \<and> (s_id old \<noteq> slotId \<longrightarrow> new = old))
     rows (map (\<lambda>row. if s_id row = slotId then updateData slot dto row else row) rows)"
  by (induction rows) (simp_all add: sameButStatusAndType_def updateData_frame)

lemma status_map:
  "upd_status dto \<notin> {Some Available, Some Blocked, Some Cancelled} \<Longrightarrow>
   map s_status (map (\<lambda>row. if s_id row = slotId then updateData slot dto row else row) rows)
     = map s_status rows"
  by (induction rows) (simp_all add: updateData_status_ignored)


text \<open>
  Claim C10. For a table with unique identifiers and a slot of the provider that is not
  booked, \<^verbatim>\<open>updateAvailabilitySlot\<close> succeeds; every row keeps its identifier, availability,
  provider, start and end instants, patient and booking reference; rows other than the
  slot are unchanged; the availability and provider tables are unchanged; and when the
  requested status is absent or is not one of available, blocked, cancelled, every row
  keeps its status.
\<close>

theorem updateSlot_frame:
  "distinct (map s_id (appointmentSlots db)) \<and> slot \<in> set (appointmentSlots db)
   \<and> s_id slot = slotId \<and> s_providerId slot = providerId \<and> s_status slot \<noteq> booked \<longrightarrow>
     (\<exists>db' result.
        updateAvailabilitySlot db slotId providerId dto = Inr (db', result)
      \<and> list_all2 (\<lambda>old new. sameButStatusAndType old new \<and> (s_id old \<noteq> slotId \<longrightarrow> new = old))
           (appointmentSlots db) (appointmentSlots db')
      \<and> availabilities db' = availabilities db
      \<and> providers db' = providers db
      \<and> (upd_status dto \<notin> {Some Available, Some Blocked, Some Cancelled} \<longrightarrow>
           map s_status (appointmentSlots db') = map s_status (appointmentSlots db)))"
proof
  assume a: "distinct (map s_id (appointmentSlots db)) \<and> slot \<in> set (appointmentSlots db)
   \<and> s_id slot = slotId \<and> s_providerId slot = providerId \<and> s_status slot \<noteq> booked"
  then have f: "findSlot db slotId providerId = Some slot"
    using findSlot_the_row[of db slot providerId] by auto
  from a have nb: "s_status slot \<noteq> booked" by simp
  from update_succeeds[OF f nb, of dto] obtain db' result where d:
    "updateAvailabilitySlot db slotId providerId dto = Inr (db', result)"
    "appointmentSlots db' =
       map (\<lambda>row. if s_id row = slotId then updateData slot dto row else row) (appointmentSlots db)"
    "availabilities db' = availabilities db" "providers db' = providers db"
    by auto
  show "\<exists>db' result.
        updateAvailabilitySlot db slotId providerId dto = Inr (db', result)
      \<and> list_all2 (\<lambda>old new. sameButStatusAndType old new \<and> (s_id old \<noteq> slotId \<longrightarrow> new = old))
           (appointmentSlots db) (appointmentSlots db')
      \<and> availabilities db' = availabilities db
      \<and> providers db' = providers db
      \<and> (upd_status dto \<notin> {Some Available, Some Blocked, Some Cancelled} \<longrightarrow>
           map s_status (appointmentSlots db') = map s_status (appointmentSlots db))"
  proof (intro exI[of _ db'] exI[of _ result] conjI impI)
    show "list_all2 (\<lambda>old new. sameButStatusAndType old new \<and> (s_id old \<noteq> slotId \<longrightarrow> new = old))
           (appointmentSlots db) (appointmentSlots db')"
      unfolding d(2) by (rule frame_map)
    show "map s_status (appointmentSlots db') = map s_status (appointmentSlots db)"
      if "upd_status dto \<notin> {Some Available, Some Blocked, Some Cancelled}"
      unfolding d(2) using that by (rule status_map)
  qed (rule d(1), rule d(3), rule d(4))
qed

theorem updateSlot_frame_witness:
  "distinct (map s_id (appointmentSlots exDb)) \<and> exSlotFree \<in> set (appointmentSlots exDb)
   \<and> s_status exSlotFree = available
   \<and> upd_status exUpdate = Some Booked
   \<and> updateAvailabilitySlot exDb 12 1 exUpdate =
       Inr (exDb\<lparr>appointmentSlots :=
                   [exSlotBooked, exSlotFree\<lparr>s_appointmentType := ''follow_up''\<rparr>,
                    exSlotNextWeek, exSlotSingle]\<rparr>,
            \<lparr>res_id = 12, res_status = available, res_appointment_type = ''follow_up'',
              res_slot_start_time = 1722504600000, res_slot_end_time = 1722506400000\<rparr>)"
  using updateSlot_frame[of exDb exSlotFree 12 1 exUpdate]
  by (simp add: exDb_defs updateAvailabilitySlot_def findSlot_def updateData_def)


lemma filterByPrice_nonzero:
  "mp \<noteq> 0 \<Longrightarrow>
   filterByPrice (Some mp) rows =
     filter (\<lambda>(slot, availability).
        case a_pricing availability of None \<Rightarrow> True | Some pricing \<Rightarrow> base_fee pricing \<le> mp) rows"
  by (simp add: filterByPrice_def)


text \<open>
  Claim C9. With the maximum price 0 the price filter is skipped: a slot whose availability
  has a base fee of 500 passes.
\<close>

theorem filterByPrice_zero_maximum:
  "a_pricing exAvailability = Some exPricing \<and> base_fee exPricing = 500
   \<and> filterByPrice (Some 0) [(exSlotFree, exAvailability)] = [(exSlotFree, exAvailability)]"
  by (simp add: filterByPrice_def exAvailability_def exPricing_def)

section \<open>Creating availability\<close>

text \<open>
  What the conflict check does for every request, recurring or not: when slots of the
  provider exist on the first day and the slots generated for that day overlap them, the
  request fails with the number of overlapping slots and nothing is written.
\<close>

lemma createAvailability_first_day_conflict:
  assumes "providerId \<in> set (providers db)"
      and "isValidTimezone R (dto_timezone dto)"
      and "validateSlotGeneration R (configOf dto) = Inr []"
      and "generateSlotsForDay R (configOf dto) = Some (Inr newSlots)"
      and "checkForOverlappingSlots newSlots
             (map (toGeneratedSlot R (dto_timezone dto))
                (existingSlotsOfDay db providerId (dto_date dto))) = overlapping"
      and "overlapping \<noteq> []"
  shows "createAvailability R now db providerId dto =
           Some (Inl (OverlapConflictException (length overlapping)))"
proof -
  have ex: "existingSlotsOfDay db providerId (dto_date dto) \<noteq> []"
    using assms(5,6) checkForOverlappingSlots_no_existing[of newSlots] by auto
  have c: "timezone (configOf dto) = dto_timezone dto" "date (configOf dto) = dto_date dto"
    by (simp_all add: configOf_def)
  have "checkAvailabilityConflicts R db providerId (configOf dto) =
          Some (Inl (OverlapConflictException (length overlapping)))"
    using ex assms(4,5,6) by (simp add: checkAvailabilityConflicts_def c Let_def)
  then show ?thesis
    using assms(1,2,3) by (simp add: createAvailability_def)
qed

lemma createAvailability_success:
  assumes "createAvailability R now db providerId dto = Some (Inr (db', res))"
  shows "\<exists>slots rows.
           requestedSlots R now dto = Some (Inr slots)
         \<and> newSlotRows (Suc (nextId db)) (nextId db) providerId (dto_appointment_type dto) slots = Some rows
         \<and> appointmentSlots db' = appointmentSlots db @ rows
         \<and> slots_created res = length rows"
proof -
  from assms obtain slots where s: "requestedSlots R now dto = Some (Inr slots)"
    by (auto simp: createAvailability_def split: if_splits sum.splits option.splits)
  from assms s obtain rows where r:
    "newSlotRows (Suc (nextId db)) (nextId db) providerId (dto_appointment_type dto) slots = Some rows"
    by (auto simp: createAvailability_def split: if_splits sum.splits option.splits)
  from assms s r have "appointmentSlots db' = appointmentSlots db @ rows \<and> slots_created res = length rows"
    by (auto simp: createAvailability_def split: if_splits sum.splits option.splits)
  with s r show ?thesis by (intro exI[of _ slots] exI[of _ rows]) simp
qed

lemma requestedSlots_open_ended:
  "dto_is_recurring dto \<Longrightarrow> dto_recurrence_pattern dto = Some pattern \<Longrightarrow>
   dto_recurrence_end_date dto = None \<Longrightarrow>
   requestedSlots R now dto = generateRecurringSlots R (configOf dto) pattern (plusMonths R 3 now)"
  by (simp add: requestedSlots_def recurrenceEndDate_def)

text \<open>
  Claim C5, as the code has it: for a recurring request without an end date the recurrence
  runs until 3 months after the time of the call (\<open>now\<close>), whatever the start date of the
  window; the slots of a successful request are those \<^verbatim>\<open>generateRecurringSlots\<close> gives for
  that end date.
\<close>

theorem recurrence_horizon_three_months_from_now:
  "dto_is_recurring dto \<and> dto_recurrence_pattern dto = Some pattern
   \<and> dto_recurrence_end_date dto = None \<longrightarrow>
     recurrenceEndDate R now dto = plusMonths R 3 now
   \<and> requestedSlots R now dto =
       generateRecurringSlots R (configOf dto) pattern (plusMonths R 3 now)
   \<and> (createAvailability R now db providerId dto = Some (Inr (db', res)) \<longrightarrow>
        (\<exists>slots rows.
            generateRecurringSlots R (configOf dto) pattern (plusMonths R 3 now) = Some (Inr slots)
          \<and> newSlotRows (Suc (nextId db)) (nextId db) providerId (dto_appointment_type dto) slots
              = Some rows
          \<and> appointmentSlots db' = appointmentSlots db @ rows))"
proof (intro impI conjI)
  assume a: "dto_is_recurring dto \<and> dto_recurrence_pattern dto = Some pattern
   \<and> dto_recurrence_end_date dto = None"
  then show "recurrenceEndDate R now dto = plusMonths R 3 now"
    by (simp add: recurrenceEndDate_def)
  from a show r: "requestedSlots R now dto =
       generateRecurringSlots R (configOf dto) pattern (plusMonths R 3 now)"
    by (simp add: requestedSlots_open_ended)
  assume "createAvailability R now db providerId dto = Some (Inr (db', res))"
  from createAvailability_success[OF this] show "\<exists>slots rows.
            generateRecurringSlots R (configOf dto) pattern (plusMonths R 3 now) = Some (Inr slots)
          \<and> newSlotRows (Suc (nextId db)) (nextId db) providerId (dto_appointment_type dto) slots
              = Some rows
          \<and> appointmentSlots db' = appointmentSlots db @ rows"
    unfolding r by auto
qed

lemma three_months_after_now: "plusMonths exRuntime 3 1721433600000 = 1729382400000"
  by code_simp

lemma three_months_after_start: "plusMonths exRuntime 3 1727740800000 = 1735689600000"
  by code_simp

lemma open_ended_created:
  "createAvailability exRuntime 1721433600000 exDb 1 exOpenEndedRequest =
     Some (Inr (exDb\<lparr>availabilities :=
                        availabilities exDb @ [newAvailability 22 1 exOpenEndedRequest],
                     appointmentSlots := appointmentSlots exDb @ exOpenEndedRows,
                     nextId := 26\<rparr>,
                \<lparr>availability_id = 22, slots_created = 3,
                  date_range_start = 1727740800000, date_range_end = 1727740800000\<rparr>))"
  by code_simp

lemma open_ended_counts:
  "map_option (map_sum id length)
     (generateRecurringSlots exRuntime (configOf exOpenEndedRequest) weekly 1729382400000) = Some (Inr 3)"
  "map_option (map_sum id length)
     (generateRecurringSlots exRuntime (configOf exOpenEndedRequest) weekly 1735689600000) = Some (Inr 14)"
  by code_simp+

theorem recurrence_horizon_three_months_from_now_witness:
  "dto_is_recurring exOpenEndedRequest \<and> dto_recurrence_pattern exOpenEndedRequest = Some weekly
   \<and> dto_recurrence_end_date exOpenEndedRequest = None
   \<and> plusMonths exRuntime 3 1721433600000 = 1729382400000
   \<and> recurrenceEndDate exRuntime 1721433600000 exOpenEndedRequest = 1729382400000
   \<and> createAvailability exRuntime 1721433600000 exDb 1 exOpenEndedRequest =
       Some (Inr (exDb\<lparr>availabilities :=
                          availabilities exDb @ [newAvailability 22 1 exOpenEndedRequest],
                       appointmentSlots := appointmentSlots exDb @ exOpenEndedRows,
                       nextId := 26\<rparr>,
                  \<lparr>availability_id = 22, slots_created = 3,
                    date_range_start = 1727740800000, date_range_end = 1727740800000\<rparr>))"
  using recurrence_horizon_three_months_from_now
          [of exOpenEndedRequest weekly exRuntime 1721433600000 exDb 1
              "exDb\<lparr>availabilities :=
                          availabilities exDb @ [newAvailability 22 1 exOpenEndedRequest],
                       appointmentSlots := appointmentSlots exDb @ exOpenEndedRows,
                       nextId := 26\<rparr>"
              "\<lparr>availability_id = 22, slots_created = 3,
                    date_range_start = 1727740800000, date_range_end = 1727740800000\<rparr>"]
        open_ended_created three_months_after_now
  by (simp add: exOpenEndedRequest_def)

text \<open>
  The request made on 2024-07-20 for a window starting on 2024-10-01: the recurrence ends on
  2024-10-20 and gives 3 slots; 3 months from the start date would be 2025-01-01 and would
  give 14.
\<close>

theorem recurrence_horizon_not_from_start_date:
  "dto_is_recurring exOpenEndedRequest
   \<and> dto_recurrence_end_date exOpenEndedRequest = None
   \<and> recurrenceEndDate exRuntime 1721433600000 exOpenEndedRequest
        \<noteq> plusMonths exRuntime 3 (dto_date exOpenEndedRequest)
   \<and> map_option (map_sum id length) (requestedSlots exRuntime 1721433600000 exOpenEndedRequest)
        = Some (Inr 3)
   \<and> map_option (map_sum id length)
        (generateRecurringSlots exRuntime (configOf exOpenEndedRequest) weekly
           (plusMonths exRuntime 3 (dto_date exOpenEndedRequest))) = Some (Inr 14)"
proof -
  have d: "dto_date exOpenEndedRequest = 1727740800000" by (simp add: exOpenEndedRequest_def)
  have r: "requestedSlots exRuntime 1721433600000 exOpenEndedRequest =
      generateRecurringSlots exRuntime (configOf exOpenEndedRequest) weekly 1729382400000"
    using requestedSlots_open_ended[of exOpenEndedRequest weekly exRuntime 1721433600000]
    by (simp add: exOpenEndedRequest_def three_months_after_now)
  show ?thesis
    unfolding d three_months_after_start r open_ended_counts
    by (simp add: recurrenceEndDate_def exOpenEndedRequest_def three_months_after_now)
qed


lemma recurring_created:
  "createAvailability exRuntime 1721433600000 exDb 1 exRecurringRequest =
     Some (Inr (exDb\<lparr>availabilities :=
                        availabilities exDb @ [newAvailability 22 1 exRecurringRequest],
                     appointmentSlots := appointmentSlots exDb @ exRecurringRows,
                     nextId := 27\<rparr>,
                \<lparr>availability_id = 22, slots_created = 4,
                  date_range_start = 1722384000000, date_range_end = 1722470400000\<rparr>))"
  by code_simp

lemma single_day_conflict:
  "createAvailability exRuntime 1721433600000 exDb 1
     (exRecurringRequest\<lparr>dto_date := 1722470400000, dto_is_recurring := False\<rparr>)
   = Some (Inl (OverlapConflictException 2))"
  by code_simp

lemma recurring_overlaps:
  "checkForOverlappingSlots (map (toGeneratedSlot exRuntime ''UTC'') exRecurringRows)
     (map (toGeneratedSlot exRuntime ''UTC'') (appointmentSlots exDb))
   = map (toGeneratedSlot exRuntime ''UTC'') (drop 2 exRecurringRows)"
  by code_simp

text \<open>
  Claim C2. Provider 1 has slots on 2024-08-01 from 09:00 to 09:30 (booked) and from 09:30
  to 10:00. The daily request from 2024-07-31 to 2024-08-01 for the window 09:00 to 10:00
  succeeds and writes four slots, two of them on 2024-08-01 over the existing ones: only
  the slots of the first day were compared. The same window asked for 2024-08-01 alone
  fails with the conflict on 2 slots.
\<close>

theorem recurring_request_conflict_not_detected:
  "createAvailability exRuntime 1721433600000 exDb 1 exRecurringRequest =
     Some (Inr (exDb\<lparr>availabilities :=
                        availabilities exDb @ [newAvailability 22 1 exRecurringRequest],
                     appointmentSlots := appointmentSlots exDb @ exRecurringRows,
                     nextId := 27\<rparr>,
                \<lparr>availability_id = 22, slots_created = 4,
                  date_range_start = 1722384000000, date_range_end = 1722470400000\<rparr>))
   \<and> checkForOverlappingSlots (map (toGeneratedSlot exRuntime ''UTC'') exRecurringRows)
         (map (toGeneratedSlot exRuntime ''UTC'') (appointmentSlots exDb))
       = map (toGeneratedSlot exRuntime ''UTC'') (drop 2 exRecurringRows)
   \<and> createAvailability exRuntime 1721433600000 exDb 1
         (exRecurringRequest\<lparr>dto_date := 1722470400000, dto_is_recurring := False\<rparr>)
       = Some (Inl (OverlapConflictException 2))"
  by (intro conjI recurring_created recurring_overlaps single_day_conflict)

end
